theory Spec2Isabelle
  imports Main
begin

section \<open>Go library functions used by the program\<close>

text \<open>
  Go strings are byte sequences; they are modelled as \<open>string\<close> (a list of 8-bit
  characters).  The functions of this section are the parts of Go's \<open>strings\<close> and
  \<open>encoding/base64\<close> packages that the program calls.
\<close>

subsection \<open>strings.HasPrefix, strings.Contains, strings.Split\<close>

fun HasPrefix :: "string \<Rightarrow> string \<Rightarrow> bool" where
  "HasPrefix s [] = True"
| "HasPrefix [] (p # ps) = False"
| "HasPrefix (c # cs) (p # ps) = (c = p \<and> HasPrefix cs ps)"

fun Contains :: "string \<Rightarrow> string \<Rightarrow> bool" where
  "Contains [] substr = (substr = [])"
| "Contains (c # cs) substr = (HasPrefix (c # cs) substr \<or> Contains cs substr)"

text \<open>\<open>strings.Split(s, sep)\<close> for a separator of one byte: the pieces between the
  separators, the empty pieces included; \<open>Split("", sep)\<close> is the list holding one
  empty string.\<close>

fun Split :: "string \<Rightarrow> char \<Rightarrow> string list" where
  "Split [] sep = [[]]"
| "Split (c # cs) sep =
     (if c = sep then [] # Split cs sep
      else (case Split cs sep of
              [] \<Rightarrow> [[c]]
            | t # ts \<Rightarrow> (c # t) # ts))"

subsection \<open>base64.StdEncoding\<close>

definition encodeStd :: string where
  "encodeStd = ''ABCDEFGHIJKLMNOPQRSTUVWXYZabcdefghijklmnopqrstuvwxyz0123456789+/''"

definition padChar :: char where
  "padChar = CHR ''=''"

text \<open>\<open>enc.encode[val & 0x3F]\<close>\<close>

definition encode6 :: "nat \<Rightarrow> char" where
  "encode6 val = encodeStd ! (val mod 64)"

text \<open>\<open>EncodeToString\<close>: three bytes become four characters; a remainder of one or
  two bytes is padded with \<open>=\<close>.\<close>

fun EncodeToString :: "string \<Rightarrow> string" where
  "EncodeToString (a # b # c # src) =
     (let val = (of_char a * 256 + of_char b) * 256 + of_char c
      in encode6 (val div 262144) # encode6 (val div 4096) # encode6 (val div 64) # encode6 val
           # EncodeToString src)"
| "EncodeToString [a, b] =
     (let val = of_char a * 65536 + of_char b * 256
      in [encode6 (val div 262144), encode6 (val div 4096), encode6 (val div 64), padChar])"
| "EncodeToString [a] =
     (let val = of_char a * 65536
      in [encode6 (val div 262144), encode6 (val div 4096), padChar, padChar])"
| "EncodeToString [] = []"

text \<open>\<open>enc.decodeMap\<close>: the position of a character in the alphabet, if it is there.\<close>

definition decodeMap :: "char \<Rightarrow> nat option" where
  "decodeMap c = map_of (zip encodeStd [0..<64]) c"

text \<open>The quanta of four characters, after the line breaks are gone.  Padding is
  required and may only end the input; the unused low bits of a padded quantum are not
  checked (the encoding is not strict).\<close>

fun decodeQuanta :: "string \<Rightarrow> string option" where
  "decodeQuanta [] = Some []"
| "decodeQuanta [a, b, c, d] =
     (case (decodeMap a, decodeMap b) of
        (Some x, Some y) \<Rightarrow>
          (if c = padChar then
             (if d = padChar then Some [char_of ((x * 64 + y) div 16)] else None)
           else
             (case decodeMap c of
                None \<Rightarrow> None
              | Some z \<Rightarrow>
                  (if d = padChar then
                     Some [char_of ((x * 64 + y) div 16), char_of (((y * 64 + z) div 4) mod 256)]
                   else
                     (case decodeMap d of
                        None \<Rightarrow> None
                      | Some u \<Rightarrow>
                          Some [char_of ((x * 64 + y) div 16),
                                char_of (((y * 64 + z) div 4) mod 256),
                                char_of ((z * 64 + u) mod 256)]))))
      | _ \<Rightarrow> None)"
| "decodeQuanta (a # b # c # d # src) =
     (case (decodeMap a, decodeMap b, decodeMap c, decodeMap d) of
        (Some x, Some y, Some z, Some u) \<Rightarrow>
          (case decodeQuanta src of
             None \<Rightarrow> None
           | Some dst \<Rightarrow>
               Some (char_of ((x * 64 + y) div 16) # char_of (((y * 64 + z) div 4) mod 256)
                       # char_of ((z * 64 + u) mod 256) # dst))
      | _ \<Rightarrow> None)"
| "decodeQuanta _ = None"

text \<open>\<open>DecodeString\<close>: carriage returns and line feeds are skipped wherever they
  stand; \<open>None\<close> is a \<open>CorruptInputError\<close>.\<close>

definition DecodeString :: "string \<Rightarrow> string option" where
  "DecodeString s = decodeQuanta (filter (\<lambda>c. c \<noteq> CHR 0x0A \<and> c \<noteq> CHR 0x0D) s)"

section \<open>The webhook verifier (internal/webhook)\<close>

text \<open>The three headers as \<open>r.Header.Get\<close> returns them: a header that is absent reads
  as the empty string.\<close>

record http_request =
  webhook_id :: string
  webhook_timestamp :: string
  webhook_signature :: string

datatype verification_err = ErrMissingHeaders | ErrMissingSecret | ErrInvalidSignature | CorruptInputError

record WebhookVerificationError =
  Code :: string
  Message :: string
  Err :: verification_err

text \<open>The loop over the space-separated signatures of the header.\<close>

fun signatureFound :: "string list \<Rightarrow> string \<Rightarrow> bool" where
  "signatureFound [] signature = False"
| "signatureFound (sig # sigs) signature =
     (if Contains sig ('','' @ signature) then True else signatureFound sigs signature)"

text \<open>
  \<open>verifyWebhook\<close>.  The keyed hash \<open>hmac.New(sha256.New, key)\<close> of Go's standard library
  is a parameter of the model: \<open>hmac_sha256 key msg\<close> is the digest \<open>h.Sum(nil)\<close> after
  \<open>h.Write(msg)\<close>.  The result \<open>None\<close> is Go's \<open>nil\<close> error.
\<close>

definition verifyWebhook ::
  "(string \<Rightarrow> string \<Rightarrow> string) \<Rightarrow> http_request \<Rightarrow> string \<Rightarrow> string \<Rightarrow> WebhookVerificationError option"
where
  "verifyWebhook hmac_sha256 r body secret =
     (let eventID = webhook_id r;
          timestamp = webhook_timestamp r;
          webhookSignature = webhook_signature r
      in if eventID = [] \<or> timestamp = [] \<or> webhookSignature = [] then
           Some \<lparr>Code = ''MISSING_HEADERS'', Message = ''Missing required webhook header'',
                 Err = ErrMissingHeaders\<rparr>
         else
           let signedContent = eventID @ ''.'' @ timestamp @ ''.'' @ body;
               parts = Split secret (CHR ''_'')
           in if length parts < 2 then
                Some \<lparr>Code = ''INVALID_SECRET_FORMAT'', Message = ''Invalid LOOPS_SIGNING_SECRET format'',
                      Err = ErrMissingSecret\<rparr>
              else
                (case DecodeString (parts ! 1) of
                   None \<Rightarrow>
                     Some \<lparr>Code = ''INVALID_SECRET_ENCODING'',
                           Message = ''Failed to decode LOOPS_SIGNING_SECRET'', Err = CorruptInputError\<rparr>
                 | Some secretBytes \<Rightarrow>
                     let signature = EncodeToString (hmac_sha256 secretBytes signedContent)
                     in if signatureFound (Split webhookSignature (CHR '' '')) signature then None
                        else Some \<lparr>Code = ''INVALID_SIGNATURE'', Message = ''Invalid signature'',
                                   Err = ErrInvalidSignature\<rparr>))"

section \<open>Errors\<close>

text \<open>
  Go errors as values.  \<open>LoopsError\<close> is \<open>*loops.Error\<close> (pkg/loops), \<open>StatusError\<close> is the
  API server's \<open>*apierrors.StatusError\<close> with its reason and message, \<open>ErrorString\<close> is an
  \<open>errors.New\<close> or a \<open>fmt.Errorf\<close> without \<open>%w\<close>, and \<open>Wrapped prefix err\<close> is
  \<open>fmt.Errorf(prefix + ": %w", err)\<close>.  \<open>None\<close> of type \<open>go_error option\<close> is \<open>nil\<close>.
\<close>

datatype StatusReason =
  StatusReasonNotFound | StatusReasonAlreadyExists | StatusReasonConflict
  | StatusReasonInvalid | StatusReasonInternalError

datatype go_error =
  LoopsError nat string
  | StatusError StatusReason string
  | ErrorString string
  | Wrapped string go_error

function itoa :: "nat \<Rightarrow> string" where
  "itoa n = (if n < 10 then [char_of (48 + n)] else itoa (n div 10) @ [char_of (48 + n mod 10)])"
  by pat_completeness auto
termination
  by (relation "measure id") auto

declare itoa.simps [simp del]

text \<open>The method \<open>Error()\<close>.\<close>

fun Error :: "go_error \<Rightarrow> string" where
  "Error (LoopsError StatusCode Body) = ''api request failed with status '' @ itoa StatusCode @ '': '' @ Body"
| "Error (StatusError reason msg) = msg"
| "Error (ErrorString s) = s"
| "Error (Wrapped prefix err) = prefix @ '': '' @ Error err"

text \<open>pkg/loops: \<open>isErrorStatus\<close> looks for a \<open>*loops.Error\<close> in the chain of wrapped errors
  (\<open>errors.As\<close>) and compares its status code.\<close>

fun isErrorStatus :: "go_error \<Rightarrow> nat \<Rightarrow> bool" where
  "isErrorStatus (LoopsError StatusCode Body) status = (StatusCode = status)"
| "isErrorStatus (Wrapped prefix err) status = isErrorStatus err status"
| "isErrorStatus (StatusError reason msg) status = False"
| "isErrorStatus (ErrorString s) status = False"

definition IsBadRequest :: "go_error \<Rightarrow> bool" where
  "IsBadRequest err = isErrorStatus err 400"

definition IsNotFound :: "go_error \<Rightarrow> bool" where
  "IsNotFound err = isErrorStatus err 404"

definition IsConflict :: "go_error \<Rightarrow> bool" where
  "IsConflict err = isErrorStatus err 409"

text \<open>k8s.io/apimachinery \<open>api/errors\<close>: the reason of the \<open>StatusError\<close> in the chain, if
  there is one.\<close>

fun ReasonForError :: "go_error \<Rightarrow> StatusReason option" where
  "ReasonForError (StatusError reason msg) = Some reason"
| "ReasonForError (Wrapped prefix err) = ReasonForError err"
| "ReasonForError (LoopsError StatusCode Body) = None"
| "ReasonForError (ErrorString s) = None"

definition apierrors_IsNotFound :: "go_error \<Rightarrow> bool" where
  "apierrors_IsNotFound err = (ReasonForError err = Some StatusReasonNotFound)"

definition apierrors_IsAlreadyExists :: "go_error \<Rightarrow> bool" where
  "apierrors_IsAlreadyExists err = (ReasonForError err = Some StatusReasonAlreadyExists)"

definition apierrors_IsConflict :: "go_error \<Rightarrow> bool" where
  "apierrors_IsConflict err = (ReasonForError err = Some StatusReasonConflict)"

section \<open>The declarative records\<close>

text \<open>
  The API types come from the module \<open>go.miloapis.com/milo\<close>; the records below hold the
  fields the program reads or writes.  Go embeds \<open>ObjectMeta\<close> in every object; a record
  of the model has it as its first field.  Times are natural numbers (seconds), \<open>0\<close>
  being the zero time.  A \<open>DeletionTimestamp\<close> that is \<open>nil\<close> is \<open>None\<close>.
\<close>

record ObjectMeta =
  Name :: string
  GenerateName :: string
  Namespace :: string
  UID :: string
  Generation :: int
  DeletionTimestamp :: "nat option"
  Finalizers :: "string list"

datatype ConditionStatus = ConditionTrue | ConditionFalse | ConditionUnknown

record Condition =
  Type :: string
  Status :: ConditionStatus
  Reason :: string
  Message :: string
  LastTransitionTime :: nat
  ObservedGeneration :: int

text \<open>\<open>ContactProviderStatus\<close> and the provider entries of a ContactGroup's spec: a
  provider name and the identifier at that provider.\<close>

record Provider =
  ProviderName :: string
  ID :: string

text \<open>The status of a Contact and of a ContactGroupMembership have the same shape.\<close>

record ResourceStatus =
  Conditions :: "Condition list"
  Providers :: "Provider list"

record ContactSpec =
  Email :: string
  GivenName :: string
  FamilyName :: string

record Contact =
  cMeta :: ObjectMeta
  cSpec :: ContactSpec
  cStatus :: ResourceStatus

record ContactGroup =
  gMeta :: ObjectMeta
  gProviders :: "Provider list"

text \<open>\<open>ContactReference\<close> and \<open>ContactGroupReference\<close>: a name and a namespace.\<close>

record Reference =
  RefName :: string
  RefNamespace :: string

text \<open>The spec of a ContactGroupMembership and of a ContactGroupMembershipRemoval.\<close>

record MembershipSpec =
  ContactRef :: Reference
  ContactGroupRef :: Reference

record ContactGroupMembership =
  mMeta :: ObjectMeta
  mSpec :: MembershipSpec
  mStatus :: ResourceStatus

record ContactGroupMembershipRemoval =
  rMeta :: ObjectMeta
  rSpec :: MembershipSpec

type_synonym NamespacedName = "string \<times> string"

definition key_of :: "ObjectMeta \<Rightarrow> NamespacedName" where
  "key_of m = (Namespace m, Name m)"

definition emptyMeta :: ObjectMeta where
  "emptyMeta = \<lparr>Name = [], GenerateName = [], Namespace = [], UID = [], Generation = 0,
                 DeletionTimestamp = None, Finalizers = []\<rparr>"

definition emptyStatus :: ResourceStatus where
  "emptyStatus = \<lparr>Conditions = [], Providers = []\<rparr>"

subsection \<open>k8s.io/apimachinery \<open>api/meta\<close>: conditions\<close>

definition FindStatusCondition :: "Condition list \<Rightarrow> string \<Rightarrow> Condition option" where
  "FindStatusCondition conditions conditionType = find (\<lambda>c. Type c = conditionType) conditions"

text \<open>What \<open>SetStatusCondition\<close> does to the entry it found: the transition time moves
  only when the status changes.\<close>

definition updateCondition :: "nat \<Rightarrow> Condition \<Rightarrow> Condition \<Rightarrow> Condition" where
  "updateCondition now existingCondition newCondition =
     (let c1 = (if Status existingCondition \<noteq> Status newCondition then
                  existingCondition\<lparr>Status := Status newCondition,
                    LastTransitionTime :=
                      (if LastTransitionTime newCondition \<noteq> 0 then LastTransitionTime newCondition
                       else now)\<rparr>
                else existingCondition);
          c2 = (if Reason c1 \<noteq> Reason newCondition then c1\<lparr>Reason := Reason newCondition\<rparr> else c1);
          c3 = (if Message c2 \<noteq> Message newCondition then c2\<lparr>Message := Message newCondition\<rparr> else c2)
      in if ObservedGeneration c3 \<noteq> ObservedGeneration newCondition then
           c3\<lparr>ObservedGeneration := ObservedGeneration newCondition\<rparr>
         else c3)"

text \<open>\<open>SetStatusCondition\<close>: the first entry of the type is updated where it stands; when
  there is none the new condition is appended.\<close>

fun SetStatusCondition :: "nat \<Rightarrow> Condition list \<Rightarrow> Condition \<Rightarrow> Condition list" where
  "SetStatusCondition now [] newCondition =
     [if LastTransitionTime newCondition = 0 then newCondition\<lparr>LastTransitionTime := now\<rparr>
      else newCondition]"
| "SetStatusCondition now (c # conditions) newCondition =
     (if Type c = Type newCondition then updateCondition now c newCondition # conditions
      else c # SetStatusCondition now conditions newCondition)"

section \<open>The declarative store and the remote provider\<close>

text \<open>
  The program reaches the declarative store through the controller-runtime client and the
  remote provider through the interface \<open>loops.API\<close>; both are outside the repository.
  They are modelled as one explicit state.  The store holds the objects of each kind in
  stored order.  \<open>apiFaults\<close> is what the API server answers to the coming client calls,
  one entry per call: \<open>Some err\<close> makes the call fail with \<open>err\<close> and change nothing,
  \<open>None\<close> (and an exhausted list) lets the call through.  \<open>nameSuffixes\<close> are the
  suffixes the server appends to \<open>metadata.generateName\<close>, in the order it will draw them.
  \<open>requests\<close> logs the write requests the client sent.  \<open>loopsReplies\<close> is what
  the provider answers to the coming calls (\<open>None\<close> is success), \<open>loopsCalls\<close> the
  calls it received.
\<close>

record ContactRequest =
  ReqEmail :: string
  ReqUserID :: string
  ReqFirstName :: string
  ReqLastName :: string
  ReqSource :: string
  ReqSubscribed :: "bool option"

datatype LoopsCall =
  UpsertContact ContactRequest
  | DeleteContact string
  | AddToMailingList string string
  | RemoveFromMailingList string string

datatype ApiRequest =
  CreateMembership ContactGroupMembership
  | CreateRemoval ContactGroupMembershipRemoval
  | DeleteRemoval NamespacedName
  | UpdateContact Contact
  | UpdateMembership ContactGroupMembership
  | PatchContactStatus NamespacedName ResourceStatus
  | PatchMembershipStatus NamespacedName ResourceStatus

record World =
  contacts :: "Contact list"
  groups :: "ContactGroup list"
  memberships :: "ContactGroupMembership list"
  removals :: "ContactGroupMembershipRemoval list"
  apiFaults :: "go_error option list"
  nameSuffixes :: "string list"
  requests :: "ApiRequest list"
  loopsReplies :: "go_error option list"
  loopsCalls :: "LoopsCall list"

definition takeFault :: "World \<Rightarrow> go_error option \<times> World" where
  "takeFault w = (case apiFaults w of [] \<Rightarrow> (None, w) | f # fs \<Rightarrow> (f, w\<lparr>apiFaults := fs\<rparr>))"

definition sent :: "ApiRequest \<Rightarrow> World \<Rightarrow> World" where
  "sent rq w = w\<lparr>requests := requests w @ [rq]\<rparr>"

definition quoted :: "string \<Rightarrow> string" where
  "quoted s = CHR 0x22 # s @ [CHR 0x22]"

definition notFound :: "string \<Rightarrow> string \<Rightarrow> go_error" where
  "notFound resource nm = StatusError StatusReasonNotFound (resource @ '' '' @ quoted nm @ '' not found'')"

definition alreadyExists :: "string \<Rightarrow> string \<Rightarrow> go_error" where
  "alreadyExists resource nm =
     StatusError StatusReasonAlreadyExists (resource @ '' '' @ quoted nm @ '' already exists'')"

subsection \<open>The calls of the provider interface\<close>

definition Loops_call :: "World \<Rightarrow> LoopsCall \<Rightarrow> go_error option \<times> World" where
  "Loops_call w c =
     (case loopsReplies w of
        [] \<Rightarrow> (None, w\<lparr>loopsCalls := loopsCalls w @ [c]\<rparr>)
      | reply # replies \<Rightarrow> (reply, w\<lparr>loopsReplies := replies, loopsCalls := loopsCalls w @ [c]\<rparr>))"

subsection \<open>Get\<close>

definition Get_Contact :: "World \<Rightarrow> NamespacedName \<Rightarrow> (go_error + Contact) \<times> World" where
  "Get_Contact w k =
     (case takeFault w of
        (Some err, w1) \<Rightarrow> (Inl err, w1)
      | (None, w1) \<Rightarrow>
          (case find (\<lambda>c. key_of (cMeta c) = k) (contacts w1) of
             None \<Rightarrow> (Inl (notFound ''contacts.notification.miloapis.com'' (snd k)), w1)
           | Some c \<Rightarrow> (Inr c, w1)))"

definition Get_ContactGroup :: "World \<Rightarrow> NamespacedName \<Rightarrow> (go_error + ContactGroup) \<times> World" where
  "Get_ContactGroup w k =
     (case takeFault w of
        (Some err, w1) \<Rightarrow> (Inl err, w1)
      | (None, w1) \<Rightarrow>
          (case find (\<lambda>g. key_of (gMeta g) = k) (groups w1) of
             None \<Rightarrow> (Inl (notFound ''contactgroups.notification.miloapis.com'' (snd k)), w1)
           | Some g \<Rightarrow> (Inr g, w1)))"

definition Get_Membership ::
  "World \<Rightarrow> NamespacedName \<Rightarrow> (go_error + ContactGroupMembership) \<times> World" where
  "Get_Membership w k =
     (case takeFault w of
        (Some err, w1) \<Rightarrow> (Inl err, w1)
      | (None, w1) \<Rightarrow>
          (case find (\<lambda>m. key_of (mMeta m) = k) (memberships w1) of
             None \<Rightarrow> (Inl (notFound ''contactgroupmemberships.notification.miloapis.com'' (snd k)), w1)
           | Some m \<Rightarrow> (Inr m, w1)))"

subsection \<open>The field indexes (setupIndexes) and List with MatchingFields\<close>

definition contactStatusProviderIDIndex :: "Contact \<Rightarrow> string list" where
  "contactStatusProviderIDIndex contact =
     (if UID (cMeta contact) = [] then [] else [UID (cMeta contact)])"

fun loopsProviderID :: "Provider list \<Rightarrow> string list" where
  "loopsProviderID [] = []"
| "loopsProviderID (provider # providers) =
     (if ProviderName provider = ''Loops'' then [ID provider] else loopsProviderID providers)"

definition groupProviderIDIndex :: "ContactGroup \<Rightarrow> string list" where
  "groupProviderIDIndex grp = loopsProviderID (gProviders grp)"

definition buildGroupMembershipRemovalIndexKey :: "Reference \<Rightarrow> Reference \<Rightarrow> string" where
  "buildGroupMembershipRemovalIndexKey contactRef groupRef =
     RefName contactRef @ ''-'' @ RefNamespace contactRef @ ''-'' @ RefName groupRef @ ''-''
       @ RefNamespace groupRef"

definition groupMembershipRemovalIndex :: "ContactGroupMembershipRemoval \<Rightarrow> string list" where
  "groupMembershipRemovalIndex removal =
     [buildGroupMembershipRemovalIndexKey (ContactRef (rSpec removal)) (ContactGroupRef (rSpec removal))]"

text \<open>A List with \<open>MatchingFields{index: v}\<close> returns the objects whose index values hold
  \<open>v\<close>, in stored order.\<close>

definition List_Contacts :: "World \<Rightarrow> string \<Rightarrow> (go_error + Contact list) \<times> World" where
  "List_Contacts w v =
     (case takeFault w of
        (Some err, w1) \<Rightarrow> (Inl err, w1)
      | (None, w1) \<Rightarrow> (Inr (filter (\<lambda>c. v \<in> set (contactStatusProviderIDIndex c)) (contacts w1)), w1))"

definition List_ContactGroups :: "World \<Rightarrow> string \<Rightarrow> (go_error + ContactGroup list) \<times> World" where
  "List_ContactGroups w v =
     (case takeFault w of
        (Some err, w1) \<Rightarrow> (Inl err, w1)
      | (None, w1) \<Rightarrow> (Inr (filter (\<lambda>g. v \<in> set (groupProviderIDIndex g)) (groups w1)), w1))"

definition List_Removals ::
  "World \<Rightarrow> string \<Rightarrow> (go_error + ContactGroupMembershipRemoval list) \<times> World" where
  "List_Removals w v =
     (case takeFault w of
        (Some err, w1) \<Rightarrow> (Inl err, w1)
      | (None, w1) \<Rightarrow> (Inr (filter (\<lambda>r. v \<in> set (groupMembershipRemovalIndex r)) (removals w1)), w1))"

subsection \<open>Create and Delete\<close>

text \<open>The name the server gives an object on creation: \<open>metadata.name\<close> when it is set,
  else \<open>metadata.generateName\<close> followed by the next suffix.\<close>

definition serverName :: "ObjectMeta \<Rightarrow> World \<Rightarrow> ObjectMeta \<times> World" where
  "serverName m w =
     (if Name m = [] \<and> GenerateName m \<noteq> [] then
        (case nameSuffixes w of
           [] \<Rightarrow> (m\<lparr>Name := GenerateName m\<rparr>, w)
         | s # ss \<Rightarrow> (m\<lparr>Name := GenerateName m @ s\<rparr>, w\<lparr>nameSuffixes := ss\<rparr>))
      else (m, w))"

definition nameRequired :: go_error where
  "nameRequired = StatusError StatusReasonInvalid ''metadata.name: Required value: name or generateName is required''"

text \<open>Create fails with AlreadyExists when the namespace holds an object of the kind
  under the name; the UID the server assigns is not modelled (the program reads the UID
  of Contacts only, and creates none).\<close>

definition Create_Membership :: "World \<Rightarrow> ContactGroupMembership \<Rightarrow> go_error option \<times> World" where
  "Create_Membership w obj =
     (case takeFault (sent (CreateMembership obj) w) of
        (Some err, w1) \<Rightarrow> (Some err, w1)
      | (None, w1) \<Rightarrow>
          (case serverName (mMeta obj) w1 of
             (m, w2) \<Rightarrow>
               if Name m = [] then (Some nameRequired, w2)
               else if list_ex (\<lambda>x. key_of (mMeta x) = key_of m) (memberships w2) then
                 (Some (alreadyExists ''contactgroupmemberships.notification.miloapis.com'' (Name m)), w2)
               else
                 (None, w2\<lparr>memberships := memberships w2 @ [obj\<lparr>mMeta := m\<lparr>Generation := 1\<rparr>\<rparr>]\<rparr>)))"

definition Create_Removal :: "World \<Rightarrow> ContactGroupMembershipRemoval \<Rightarrow> go_error option \<times> World" where
  "Create_Removal w obj =
     (case takeFault (sent (CreateRemoval obj) w) of
        (Some err, w1) \<Rightarrow> (Some err, w1)
      | (None, w1) \<Rightarrow>
          (case serverName (rMeta obj) w1 of
             (m, w2) \<Rightarrow>
               if Name m = [] then (Some nameRequired, w2)
               else if list_ex (\<lambda>x. key_of (rMeta x) = key_of m) (removals w2) then
                 (Some (alreadyExists ''contactgroupmembershipremovals.notification.miloapis.com'' (Name m)), w2)
               else
                 (None, w2\<lparr>removals := removals w2 @ [obj\<lparr>rMeta := m\<lparr>Generation := 1\<rparr>\<rparr>]\<rparr>)))"

definition Delete_Removal :: "World \<Rightarrow> ContactGroupMembershipRemoval \<Rightarrow> go_error option \<times> World" where
  "Delete_Removal w obj =
     (case takeFault (sent (DeleteRemoval (key_of (rMeta obj))) w) of
        (Some err, w1) \<Rightarrow> (Some err, w1)
      | (None, w1) \<Rightarrow>
          if list_ex (\<lambda>x. key_of (rMeta x) = key_of (rMeta obj)) (removals w1) then
            (None, w1\<lparr>removals := filter (\<lambda>x. key_of (rMeta x) \<noteq> key_of (rMeta obj)) (removals w1)\<rparr>)
          else
            (Some (notFound ''contactgroupmembershipremovals.notification.miloapis.com'' (Name (rMeta obj))), w1))"

subsection \<open>Update and the status patch\<close>

text \<open>Update writes the metadata and the spec (the status is a sub-resource).  An object
  under deletion whose last finalizer is gone leaves the store.\<close>

definition Update_Contact :: "World \<Rightarrow> Contact \<Rightarrow> go_error option \<times> World" where
  "Update_Contact w obj =
     (case takeFault (sent (UpdateContact obj) w) of
        (Some err, w1) \<Rightarrow> (Some err, w1)
      | (None, w1) \<Rightarrow>
          if \<not> list_ex (\<lambda>x. key_of (cMeta x) = key_of (cMeta obj)) (contacts w1) then
            (Some (notFound ''contacts.notification.miloapis.com'' (Name (cMeta obj))), w1)
          else if DeletionTimestamp (cMeta obj) \<noteq> None \<and> Finalizers (cMeta obj) = [] then
            (None, w1\<lparr>contacts := filter (\<lambda>x. key_of (cMeta x) \<noteq> key_of (cMeta obj)) (contacts w1)\<rparr>)
          else
            (None, w1\<lparr>contacts :=
               map (\<lambda>x. if key_of (cMeta x) = key_of (cMeta obj)
                         then x\<lparr>cMeta := cMeta obj, cSpec := cSpec obj\<rparr> else x) (contacts w1)\<rparr>))"

definition Update_Membership :: "World \<Rightarrow> ContactGroupMembership \<Rightarrow> go_error option \<times> World" where
  "Update_Membership w obj =
     (case takeFault (sent (UpdateMembership obj) w) of
        (Some err, w1) \<Rightarrow> (Some err, w1)
      | (None, w1) \<Rightarrow>
          if \<not> list_ex (\<lambda>x. key_of (mMeta x) = key_of (mMeta obj)) (memberships w1) then
            (Some (notFound ''contactgroupmemberships.notification.miloapis.com'' (Name (mMeta obj))), w1)
          else if DeletionTimestamp (mMeta obj) \<noteq> None \<and> Finalizers (mMeta obj) = [] then
            (None, w1\<lparr>memberships := filter (\<lambda>x. key_of (mMeta x) \<noteq> key_of (mMeta obj)) (memberships w1)\<rparr>)
          else
            (None, w1\<lparr>memberships :=
               map (\<lambda>x. if key_of (mMeta x) = key_of (mMeta obj)
                         then x\<lparr>mMeta := mMeta obj, mSpec := mSpec obj\<rparr> else x) (memberships w1)\<rparr>))"

text \<open>\<open>Status().Patch(obj, client.MergeFrom(original))\<close> sends the fields of the status
  that differ between \<open>original\<close> and \<open>obj\<close>; the server writes them over the stored
  status.\<close>

definition mergeStatus :: "ResourceStatus \<Rightarrow> ResourceStatus \<Rightarrow> ResourceStatus \<Rightarrow> ResourceStatus" where
  "mergeStatus original modified stored =
     stored\<lparr>Conditions := (if Conditions modified \<noteq> Conditions original then Conditions modified
                            else Conditions stored),
            Providers := (if Providers modified \<noteq> Providers original then Providers modified
                           else Providers stored)\<rparr>"

definition Status_Patch_Contact :: "World \<Rightarrow> Contact \<Rightarrow> Contact \<Rightarrow> go_error option \<times> World" where
  "Status_Patch_Contact w obj original =
     (case takeFault (sent (PatchContactStatus (key_of (cMeta obj)) (cStatus obj)) w) of
        (Some err, w1) \<Rightarrow> (Some err, w1)
      | (None, w1) \<Rightarrow>
          if \<not> list_ex (\<lambda>x. key_of (cMeta x) = key_of (cMeta obj)) (contacts w1) then
            (Some (notFound ''contacts.notification.miloapis.com'' (Name (cMeta obj))), w1)
          else
            (None, w1\<lparr>contacts :=
               map (\<lambda>x. if key_of (cMeta x) = key_of (cMeta obj)
                         then x\<lparr>cStatus := mergeStatus (cStatus original) (cStatus obj) (cStatus x)\<rparr>
                         else x) (contacts w1)\<rparr>))"

definition Status_Patch_Membership ::
  "World \<Rightarrow> ContactGroupMembership \<Rightarrow> ContactGroupMembership \<Rightarrow> go_error option \<times> World" where
  "Status_Patch_Membership w obj original =
     (case takeFault (sent (PatchMembershipStatus (key_of (mMeta obj)) (mStatus obj)) w) of
        (Some err, w1) \<Rightarrow> (Some err, w1)
      | (None, w1) \<Rightarrow>
          if \<not> list_ex (\<lambda>x. key_of (mMeta x) = key_of (mMeta obj)) (memberships w1) then
            (Some (notFound ''contactgroupmemberships.notification.miloapis.com'' (Name (mMeta obj))), w1)
          else
            (None, w1\<lparr>memberships :=
               map (\<lambda>x. if key_of (mMeta x) = key_of (mMeta obj)
                         then x\<lparr>mStatus := mergeStatus (mStatus original) (mStatus obj) (mStatus x)\<rparr>
                         else x) (memberships w1)\<rparr>))"

subsection \<open>internal/util: PatchStatusIfChanged\<close>

text \<open>\<open>equality.Semantic.DeepEqual\<close> on two statuses is equality of the records: the
  model has one empty list, and times are numbers.\<close>

definition PatchStatusIfChanged ::
  "World \<Rightarrow> ContactGroupMembership \<Rightarrow> ContactGroupMembership \<Rightarrow> ResourceStatus \<Rightarrow> ResourceStatus
     \<Rightarrow> go_error option \<times> World" where
  "PatchStatusIfChanged w Object Original OldStatus NewStatus =
     (if OldStatus \<noteq> NewStatus then
        (case Status_Patch_Membership w Object Original of
           (Some err, w1) \<Rightarrow> (Some (Wrapped ''failed to patch resource status'' err), w1)
         | (None, w1) \<Rightarrow> (None, w1))
      else (None, w))"

section \<open>The Contact controller\<close>

definition loopsContactFinalizerKey :: string where
  "loopsContactFinalizerKey = ''notification.miloapis.com/loops-contact''"

definition LoopsContactReadyCondition :: string where
  "LoopsContactReadyCondition = ''LoopsContactReady''"

definition LoopsContactNotCreatedReason :: string where
  "LoopsContactNotCreatedReason = ''ContactNotCreated''"

definition LoopsContactCreatedReason :: string where
  "LoopsContactCreatedReason = ''ContactCreated''"

definition LoopsContactUpdatedReason :: string where
  "LoopsContactUpdatedReason = ''ContactUpdated''"

definition LoopsContactNotUpdatedReason :: string where
  "LoopsContactNotUpdatedReason = ''ContactNotUpdated''"

definition NewsLetterAddedCondition :: string where
  "NewsLetterAddedCondition = ''NewsLetterAdded''"

definition NewsLetterAddedReason :: string where
  "NewsLetterAddedReason = ''NewsLetterAdded''"

definition NewsLetterNotAddedReason :: string where
  "NewsLetterNotAddedReason = ''NewsLetterNotAdded''"

text \<open>The fields of the controller that are configuration.  \<open>Sum256Hex\<close> is
  \<open>fmt.Sprintf("%x", sha256.Sum256(b))\<close> of Go's standard library, a parameter of the
  model.\<close>

record LoopsContactController =
  NewsLetterContactGroupName :: string
  NewsLetterContactGroupNamespace :: string
  Sum256Hex :: "string \<Rightarrow> string"

record ctrl_Result =
  Requeue :: bool

record finalizer_Result =
  Updated :: bool
  StatusUpdated :: bool

datatype client_Object =
  ObjContact Contact
  | ObjContactGroupMembership ContactGroupMembership
  | ObjContactGroup ContactGroup

text \<open>What a reconciliation returns: the \<open>ctrl.Result\<close>, the error, and with them the
  object as the reconciler holds it in memory when it returns (\<open>None\<close> when the Get
  failed) and the state it leaves.\<close>

type_synonym 'a Reconciled = "ctrl_Result \<times> go_error option \<times> 'a option \<times> World"

subsection \<open>The finalizer\<close>

definition loopsContactFinalizer_DeleteContact :: "World \<Rightarrow> Contact \<Rightarrow> go_error option \<times> World" where
  "loopsContactFinalizer_DeleteContact w contact =
     (case Loops_call w (DeleteContact (UID (cMeta contact))) of
        (Some err, w1) \<Rightarrow>
          if \<not> IsNotFound err then (Some (Wrapped ''failed to delete Loops contact'' err), w1)
          else (None, w1)
      | (None, w1) \<Rightarrow> (None, w1))"

definition loopsContactFinalizer_Finalize ::
  "World \<Rightarrow> client_Object \<Rightarrow> finalizer_Result \<times> go_error option \<times> World" where
  "loopsContactFinalizer_Finalize w obj =
     (case obj of
        ObjContact contact \<Rightarrow>
          (case loopsContactFinalizer_DeleteContact w contact of
             (Some err, w1) \<Rightarrow>
               (\<lparr>Updated = False, StatusUpdated = False\<rparr>,
                Some (Wrapped ''failed to delete Loops contact'' err), w1)
           | (None, w1) \<Rightarrow> (\<lparr>Updated = False, StatusUpdated = False\<rparr>, None, w1))
      | _ \<Rightarrow>
          (\<lparr>Updated = False, StatusUpdated = False\<rparr>, Some (ErrorString ''object is not a Contact''), w))"

text \<open>
  \<open>Finalizers.Finalize\<close> of controller-runtime, for the one finalizer the controller
  registers: an object that is not under deletion gets the finalizer key when it lacks
  it; an object under deletion that holds the key has the finalizer run, and loses the key
  when the finalizer succeeds.  The aggregate of the one error is that error.
\<close>

definition Contact_Finalizers_Finalize ::
  "World \<Rightarrow> Contact \<Rightarrow> finalizer_Result \<times> go_error option \<times> Contact \<times> World" where
  "Contact_Finalizers_Finalize w contact =
     (let m = cMeta contact in
      if DeletionTimestamp m = None \<and> loopsContactFinalizerKey \<notin> set (Finalizers m) then
        (\<lparr>Updated = True, StatusUpdated = False\<rparr>, None,
         contact\<lparr>cMeta := m\<lparr>Finalizers := Finalizers m @ [loopsContactFinalizerKey]\<rparr>\<rparr>, w)
      else if DeletionTimestamp m \<noteq> None \<and> loopsContactFinalizerKey \<in> set (Finalizers m) then
        (case loopsContactFinalizer_Finalize w (ObjContact contact) of
           (finalizerRes, Some err, w1) \<Rightarrow>
             (\<lparr>Updated = Updated finalizerRes, StatusUpdated = StatusUpdated finalizerRes\<rparr>,
              Some (Wrapped (''finalizer '' @ quoted loopsContactFinalizerKey @ '' failed'') err),
              contact, w1)
         | (finalizerRes, None, w1) \<Rightarrow>
             (\<lparr>Updated = True, StatusUpdated = StatusUpdated finalizerRes\<rparr>, None,
              contact\<lparr>cMeta := m\<lparr>Finalizers := filter (\<lambda>f. f \<noteq> loopsContactFinalizerKey) (Finalizers m)\<rparr>\<rparr>,
              w1))
      else (\<lparr>Updated = False, StatusUpdated = False\<rparr>, None, contact, w))"

subsection \<open>The remote upsert and the Ready condition\<close>

definition upsertContact :: "World \<Rightarrow> Contact \<Rightarrow> go_error option \<times> World" where
  "upsertContact w contact =
     (case Loops_call w
             (UpsertContact \<lparr>ReqEmail = Email (cSpec contact), ReqUserID = UID (cMeta contact),
                ReqFirstName = GivenName (cSpec contact), ReqLastName = FamilyName (cSpec contact),
                ReqSource = ''email-provider-loops-k8s-controller'', ReqSubscribed = Some True\<rparr>) of
        (Some err, w1) \<Rightarrow> (Some (Wrapped ''failed to find Loops contact'' err), w1)
      | (None, w1) \<Rightarrow> (None, w1))"

definition setContactCondition :: "nat \<Rightarrow> Contact \<Rightarrow> Condition \<Rightarrow> Contact" where
  "setContactCondition now contact cond =
     contact\<lparr>cStatus := (cStatus contact)\<lparr>Conditions :=
       SetStatusCondition now (Conditions (cStatus contact)) cond\<rparr>\<rparr>"

text \<open>The first case of the switch: no Ready condition yet, or the reason NotCreated.
  \<open>Inl err\<close> is the return with \<open>err\<close> from inside the case.\<close>

definition contactCreation :: "nat \<Rightarrow> World \<Rightarrow> Contact \<Rightarrow> (go_error + Contact) \<times> World" where
  "contactCreation now w contact =
     (case upsertContact w contact of
        (Some err, w1) \<Rightarrow>
          if \<not> IsBadRequest err then (Inl (Wrapped ''failed to create Loops contact'' err), w1)
          else
            (Inr (setContactCondition now contact
                    \<lparr>Type = LoopsContactReadyCondition, Status = ConditionFalse,
                     Reason = LoopsContactNotCreatedReason,
                     Message = ''Loops contact not created on email provider: '' @ Error err,
                     LastTransitionTime = now, ObservedGeneration = Generation (cMeta contact)\<rparr>), w1)
      | (None, w1) \<Rightarrow>
          (let contact1 = setContactCondition now contact
                    \<lparr>Type = LoopsContactReadyCondition, Status = ConditionTrue,
                     Reason = LoopsContactCreatedReason,
                     Message = ''Loops contact created on email provider'',
                     LastTransitionTime = now, ObservedGeneration = Generation (cMeta contact)\<rparr>
           in (Inr (contact1\<lparr>cStatus := (cStatus contact1)\<lparr>Providers :=
                      [\<lparr>ProviderName = ''Loops'', ID = UID (cMeta contact)\<rparr>]\<rparr>\<rparr>), w1)))"

text \<open>The second case: the generation changed since the condition was written.\<close>

definition contactUpdate :: "nat \<Rightarrow> World \<Rightarrow> Contact \<Rightarrow> (go_error + Contact) \<times> World" where
  "contactUpdate now w contact =
     (case upsertContact w contact of
        (Some err, w1) \<Rightarrow>
          if IsBadRequest err then
            (Inr (setContactCondition now contact
                    \<lparr>Type = LoopsContactReadyCondition, Status = ConditionFalse,
                     Reason = LoopsContactNotUpdatedReason,
                     Message = ''Loops contact not updated on email provider: '' @ Error err,
                     LastTransitionTime = now, ObservedGeneration = Generation (cMeta contact)\<rparr>), w1)
          else (Inl (Wrapped ''failed to update Loops contact'' err), w1)
      | (None, w1) \<Rightarrow>
          (Inr (setContactCondition now contact
                  \<lparr>Type = LoopsContactReadyCondition, Status = ConditionTrue,
                   Reason = LoopsContactUpdatedReason,
                   Message = ''Loops contact updated on email provider'',
                   LastTransitionTime = now, ObservedGeneration = Generation (cMeta contact)\<rparr>), w1))"

text \<open>The switch on the Ready condition.\<close>

definition reconcileReady :: "nat \<Rightarrow> World \<Rightarrow> Contact \<Rightarrow> (go_error + Contact) \<times> World" where
  "reconcileReady now w contact =
     (case FindStatusCondition (Conditions (cStatus contact)) LoopsContactReadyCondition of
        None \<Rightarrow> contactCreation now w contact
      | Some readyCond \<Rightarrow>
          if Reason readyCond = LoopsContactNotCreatedReason then contactCreation now w contact
          else if ObservedGeneration readyCond \<noteq> Generation (cMeta contact) then
            contactUpdate now w contact
          else (Inr contact, w))"

subsection \<open>The newsletter membership\<close>

definition isNewsletterContact :: "Contact \<Rightarrow> bool" where
  "isNewsletterContact contact = HasPrefix (Name (cMeta contact)) ''newsletter-''"

definition generateCgmName :: "LoopsContactController \<Rightarrow> Contact \<Rightarrow> string" where
  "generateCgmName r contact = Name (cMeta contact) @ ''-'' @ Sum256Hex r (UID (cMeta contact))"

text \<open>The result is \<open>errorAddingToNewsLetter\<close>, with the contact and the state.\<close>

definition addToNewsLetterList ::
  "LoopsContactController \<Rightarrow> nat \<Rightarrow> World \<Rightarrow> Contact \<Rightarrow> bool \<times> Contact \<times> World" where
  "addToNewsLetterList r now w contact =
     (let newsLetterCond = FindStatusCondition (Conditions (cStatus contact)) NewsLetterAddedCondition
      in if (case newsLetterCond of None \<Rightarrow> False | Some c \<Rightarrow> Status c = ConditionTrue) then
           (False, contact, w)
         else
           let contactgroupmembership =
                 \<lparr>mMeta = emptyMeta\<lparr>Name := generateCgmName r contact,
                                     Namespace := Namespace (cMeta contact)\<rparr>,
                  mSpec = \<lparr>ContactRef = \<lparr>RefName = Name (cMeta contact),
                                         RefNamespace = Namespace (cMeta contact)\<rparr>,
                           ContactGroupRef = \<lparr>RefName = NewsLetterContactGroupName r,
                                              RefNamespace = NewsLetterContactGroupNamespace r\<rparr>\<rparr>,
                  mStatus = emptyStatus\<rparr>
           in (case Create_Membership w contactgroupmembership of
                 (Some err, w1) \<Rightarrow>
                   if apierrors_IsAlreadyExists err then (False, contact, w1)
                   else
                     (True,
                      setContactCondition now contact
                        \<lparr>Type = NewsLetterAddedCondition, Status = ConditionFalse,
                         Reason = NewsLetterNotAddedReason,
                         Message = ''Contact not added to Newsletter list: '' @ Error err,
                         LastTransitionTime = now, ObservedGeneration = Generation (cMeta contact)\<rparr>,
                      w1)
               | (None, w1) \<Rightarrow>
                   (False,
                    setContactCondition now contact
                      \<lparr>Type = NewsLetterAddedCondition, Status = ConditionTrue,
                       Reason = NewsLetterAddedReason,
                       Message = ''Contact added to Newsletter list on email provider.'',
                       LastTransitionTime = now, ObservedGeneration = Generation (cMeta contact)\<rparr>,
                    w1)))"

subsection \<open>Reconcile\<close>

definition noRequeue :: ctrl_Result where
  "noRequeue = \<lparr>Requeue = False\<rparr>"

text \<open>What follows the switch: the newsletter membership, the status patch when the
  status differs from the one read at the start, and the result.\<close>

definition contactWriteBack ::
  "LoopsContactController \<Rightarrow> nat \<Rightarrow> World \<Rightarrow> Contact \<Rightarrow> Contact \<Rightarrow> Contact Reconciled" where
  "contactWriteBack r now w original contact =
     (case (if isNewsletterContact contact then addToNewsLetterList r now w contact
            else (False, contact, w)) of
        (errorAddingToNewsLetter, contact1, w1) \<Rightarrow>
          (case (if cStatus original \<noteq> cStatus contact1 then Status_Patch_Contact w1 contact1 original
                 else (None, w1)) of
             (Some err, w2) \<Rightarrow>
               (noRequeue, Some (Wrapped ''failed to patch contact status'' err), Some contact1, w2)
           | (None, w2) \<Rightarrow>
               if errorAddingToNewsLetter then
                 (noRequeue, Some (ErrorString ''failed to add mailing list to Loops contact''),
                  Some contact1, w2)
               else (noRequeue, None, Some contact1, w2)))"

definition Contact_Reconcile ::
  "LoopsContactController \<Rightarrow> nat \<Rightarrow> World \<Rightarrow> NamespacedName \<Rightarrow> Contact Reconciled" where
  "Contact_Reconcile r now w req =
     (case Get_Contact w req of
        (Inl err, w1) \<Rightarrow>
          if apierrors_IsNotFound err then (noRequeue, None, None, w1)
          else (noRequeue, Some (Wrapped ''failed to get contact'' err), None, w1)
      | (Inr contact0, w1) \<Rightarrow>
          (case Contact_Finalizers_Finalize w1 contact0 of
             (finalizeResult, Some err, contact, w2) \<Rightarrow>
               (noRequeue, Some (Wrapped ''failed to run finalizers for Contact'' err), Some contact, w2)
           | (finalizeResult, None, contact, w2) \<Rightarrow>
               if Updated finalizeResult then
                 (case Update_Contact w2 contact of
                    (Some updateErr, w3) \<Rightarrow>
                      if apierrors_IsConflict updateErr then (\<lparr>Requeue = True\<rparr>, None, Some contact, w3)
                      else (noRequeue, Some updateErr, Some contact, w3)
                  | (None, w3) \<Rightarrow> (noRequeue, None, Some contact, w3))
               else
                 (case reconcileReady now w2 contact of
                    (Inl err, w3) \<Rightarrow> (noRequeue, Some err, Some contact, w3)
                  | (Inr contact1, w3) \<Rightarrow> contactWriteBack r now w3 contact contact1)))"

section \<open>The ContactGroupMembership controller\<close>

definition LoopsContactGroupMembershipReadyCondition :: string where
  "LoopsContactGroupMembershipReadyCondition = ''LoopsContactGroupMembershipReady''"

definition LoopsContactGroupMembershipNotCreatedReason :: string where
  "LoopsContactGroupMembershipNotCreatedReason = ''ContactGroupMembershipNotCreated''"

definition LoopsContactGroupMembershipCreatedReason :: string where
  "LoopsContactGroupMembershipCreatedReason = ''ContactGroupMembershipCreated''"

definition LoopsContactGroupMembershipNotFinalizedReason :: string where
  "LoopsContactGroupMembershipNotFinalizedReason = ''ContactGroupMembershipNotFinalized''"

definition loopsContactGroupMembershipFinalizerKey :: string where
  "loopsContactGroupMembershipFinalizerKey = ''notification.miloapis.com/loops-contact-group-membership''"

definition getReferencedResources ::
  "World \<Rightarrow> ContactGroupMembership \<Rightarrow> (go_error + Contact \<times> ContactGroup) \<times> World" where
  "getReferencedResources w cgm =
     (case Get_Contact w (RefNamespace (ContactRef (mSpec cgm)), RefName (ContactRef (mSpec cgm))) of
        (Inl err, w1) \<Rightarrow> (Inl (Wrapped ''failed to get Contact'' err), w1)
      | (Inr contact, w1) \<Rightarrow>
          (case Get_ContactGroup w1 (RefNamespace (ContactGroupRef (mSpec cgm)),
                                     RefName (ContactGroupRef (mSpec cgm))) of
             (Inl err, w2) \<Rightarrow> (Inl (Wrapped ''failed to get ContactGroup'' err), w2)
           | (Inr contactGroup, w2) \<Rightarrow> (Inr (contact, contactGroup), w2)))"

fun loopsMailingListId :: "Provider list \<Rightarrow> go_error + string" where
  "loopsMailingListId [] = Inl (ErrorString ''mailing list ID not found for contact group'')"
| "loopsMailingListId (provider # providers) =
     (if ProviderName provider = ''Loops'' then Inr (ID provider) else loopsMailingListId providers)"

definition getMailingListId :: "ContactGroup \<Rightarrow> go_error + string" where
  "getMailingListId cg = loopsMailingListId (gProviders cg)"

definition addContactToMailingList :: "World \<Rightarrow> Contact \<Rightarrow> ContactGroup \<Rightarrow> go_error option \<times> World" where
  "addContactToMailingList w c cg =
     (case getMailingListId cg of
        Inl err \<Rightarrow> (Some (Wrapped ''failed to get Loops mailing list ID'' err), w)
      | Inr mailingListId \<Rightarrow>
          (case Loops_call w (AddToMailingList (UID (cMeta c)) mailingListId) of
             (Some err, w1) \<Rightarrow> (Some (Wrapped ''failed to add Loops contact to mailing list'' err), w1)
           | (None, w1) \<Rightarrow> (None, w1)))"

definition removeContactFromMailingList ::
  "World \<Rightarrow> Contact \<Rightarrow> ContactGroup \<Rightarrow> go_error option \<times> World" where
  "removeContactFromMailingList w c cg =
     (case getMailingListId cg of
        Inl err \<Rightarrow> (Some (Wrapped ''failed to get Loops mailing list ID'' err), w)
      | Inr mailingListId \<Rightarrow>
          (case Loops_call w (RemoveFromMailingList (UID (cMeta c)) mailingListId) of
             (Some err, w1) \<Rightarrow> (Some (Wrapped ''failed to remove Loops contact from mailing list'' err), w1)
           | (None, w1) \<Rightarrow> (None, w1)))"

definition setMembershipCondition ::
  "nat \<Rightarrow> ContactGroupMembership \<Rightarrow> Condition \<Rightarrow> ContactGroupMembership" where
  "setMembershipCondition now cgm cond =
     cgm\<lparr>mStatus := (mStatus cgm)\<lparr>Conditions :=
       SetStatusCondition now (Conditions (mStatus cgm)) cond\<rparr>\<rparr>"

subsection \<open>The finalizer\<close>

text \<open>The first component of the remote step is \<open>finalizerError\<close>, the second the \<open>err\<close>
  whose text goes into the condition.\<close>

definition membershipFinalizerRemote ::
  "World \<Rightarrow> ContactGroupMembership \<Rightarrow> (go_error \<times> go_error) option \<times> World" where
  "membershipFinalizerRemote w cgm =
     (case getReferencedResources w cgm of
        (Inl err, w1) \<Rightarrow> (Some (Wrapped ''failed to get referenced resources'' err, err), w1)
      | (Inr (contact, contactGroup), w1) \<Rightarrow>
          (case removeContactFromMailingList w1 contact contactGroup of
             (Some err, w2) \<Rightarrow> (Some (Wrapped ''failed to delete Loops contact'' err, err), w2)
           | (None, w2) \<Rightarrow> (None, w2)))"

definition loopsContactGroupMembershipFinalizer_Finalize ::
  "nat \<Rightarrow> World \<Rightarrow> client_Object
     \<Rightarrow> finalizer_Result \<times> go_error option \<times> client_Object \<times> World" where
  "loopsContactGroupMembershipFinalizer_Finalize now w obj =
     (case obj of
        ObjContactGroupMembership cgm \<Rightarrow>
          (case membershipFinalizerRemote w cgm of
             (Some (finalizerError, err), w1) \<Rightarrow>
               (let original = cgm;
                    oldStatus = mStatus cgm;
                    cgm1 = setMembershipCondition now cgm
                      \<lparr>Type = LoopsContactGroupMembershipReadyCondition, Status = ConditionFalse,
                       Reason = LoopsContactGroupMembershipNotFinalizedReason,
                       Message = ''Failed to remove Loops contact from mailing list: '' @ Error err,
                       LastTransitionTime = now, ObservedGeneration = Generation (mMeta cgm)\<rparr>
                in (case PatchStatusIfChanged w1 cgm1 original oldStatus (mStatus cgm1) of
                      (Some perr, w2) \<Rightarrow>
                        (\<lparr>Updated = False, StatusUpdated = False\<rparr>,
                         Some (Wrapped ''failed to patch contactgroupmembership status in finalizer'' perr),
                         ObjContactGroupMembership cgm1, w2)
                    | (None, w2) \<Rightarrow>
                        (\<lparr>Updated = False, StatusUpdated = False\<rparr>, Some finalizerError,
                         ObjContactGroupMembership cgm1, w2)))
           | (None, w1) \<Rightarrow> (\<lparr>Updated = False, StatusUpdated = False\<rparr>, None, obj, w1))
      | _ \<Rightarrow>
          (\<lparr>Updated = False, StatusUpdated = False\<rparr>,
           Some (ErrorString ''object is not a ContactGroupMembership''), obj, w))"

definition asMembership :: "ContactGroupMembership \<Rightarrow> client_Object \<Rightarrow> ContactGroupMembership" where
  "asMembership cgm obj = (case obj of ObjContactGroupMembership cgm1 \<Rightarrow> cgm1 | _ \<Rightarrow> cgm)"

definition Membership_Finalizers_Finalize ::
  "nat \<Rightarrow> World \<Rightarrow> ContactGroupMembership
     \<Rightarrow> finalizer_Result \<times> go_error option \<times> ContactGroupMembership \<times> World" where
  "Membership_Finalizers_Finalize now w cgm =
     (let m = mMeta cgm in
      if DeletionTimestamp m = None \<and> loopsContactGroupMembershipFinalizerKey \<notin> set (Finalizers m) then
        (\<lparr>Updated = True, StatusUpdated = False\<rparr>, None,
         cgm\<lparr>mMeta := m\<lparr>Finalizers := Finalizers m @ [loopsContactGroupMembershipFinalizerKey]\<rparr>\<rparr>, w)
      else if DeletionTimestamp m \<noteq> None \<and> loopsContactGroupMembershipFinalizerKey \<in> set (Finalizers m) then
        (case loopsContactGroupMembershipFinalizer_Finalize now w (ObjContactGroupMembership cgm) of
           (finalizerRes, Some err, obj1, w1) \<Rightarrow>
             (\<lparr>Updated = Updated finalizerRes, StatusUpdated = StatusUpdated finalizerRes\<rparr>,
              Some (Wrapped (''finalizer '' @ quoted loopsContactGroupMembershipFinalizerKey @ '' failed'') err),
              asMembership cgm obj1, w1)
         | (finalizerRes, None, obj1, w1) \<Rightarrow>
             (let cgm1 = asMembership cgm obj1 in
              (\<lparr>Updated = True, StatusUpdated = StatusUpdated finalizerRes\<rparr>, None,
               cgm1\<lparr>mMeta := (mMeta cgm1)\<lparr>Finalizers :=
                  filter (\<lambda>f. f \<noteq> loopsContactGroupMembershipFinalizerKey) (Finalizers (mMeta cgm1))\<rparr>\<rparr>,
               w1)))
      else (\<lparr>Updated = False, StatusUpdated = False\<rparr>, None, cgm, w))"

subsection \<open>Reconcile\<close>

text \<open>The creation step: \<open>reconcileError\<close> with the membership as the step leaves it.\<close>

definition membershipCreation ::
  "nat \<Rightarrow> World \<Rightarrow> ContactGroupMembership \<Rightarrow> Contact \<Rightarrow> ContactGroup
     \<Rightarrow> go_error option \<times> ContactGroupMembership \<times> World" where
  "membershipCreation now w cgm contact contactGroup =
     (case addContactToMailingList w contact contactGroup of
        (Some err, w1) \<Rightarrow>
          (Some err,
           setMembershipCondition now cgm
             \<lparr>Type = LoopsContactGroupMembershipReadyCondition, Status = ConditionFalse,
              Reason = LoopsContactGroupMembershipNotCreatedReason,
              Message = ''Loops contact group membership not created on email provider: '' @ Error err,
              LastTransitionTime = now, ObservedGeneration = Generation (mMeta cgm)\<rparr>,
           w1)
      | (None, w1) \<Rightarrow>
          (let cgm1 = setMembershipCondition now cgm
                 \<lparr>Type = LoopsContactGroupMembershipReadyCondition, Status = ConditionTrue,
                  Reason = LoopsContactGroupMembershipCreatedReason,
                  Message = ''Loops contact group membership created on email provider'',
                  LastTransitionTime = now, ObservedGeneration = Generation (mMeta cgm)\<rparr>
           in (None,
               cgm1\<lparr>mStatus := (mStatus cgm1)\<lparr>Providers :=
                  [\<lparr>ProviderName = ''Loops'', ID = UID (cMeta contact)\<rparr>]\<rparr>\<rparr>,
               w1)))"

definition reconcileMembershipReady ::
  "nat \<Rightarrow> World \<Rightarrow> ContactGroupMembership \<Rightarrow> Contact \<Rightarrow> ContactGroup
     \<Rightarrow> go_error option \<times> ContactGroupMembership \<times> World" where
  "reconcileMembershipReady now w cgm contact contactGroup =
     (case FindStatusCondition (Conditions (mStatus cgm)) LoopsContactGroupMembershipReadyCondition of
        None \<Rightarrow> membershipCreation now w cgm contact contactGroup
      | Some readyCond \<Rightarrow>
          if Reason readyCond = LoopsContactGroupMembershipNotCreatedReason then
            membershipCreation now w cgm contact contactGroup
          else (None, cgm, w))"

definition Membership_Reconcile ::
  "nat \<Rightarrow> World \<Rightarrow> NamespacedName \<Rightarrow> ContactGroupMembership Reconciled" where
  "Membership_Reconcile now w req =
     (case Get_Membership w req of
        (Inl err, w1) \<Rightarrow>
          if apierrors_IsNotFound err then (noRequeue, None, None, w1)
          else (noRequeue, Some (Wrapped ''failed to get contactgroupmembership'' err), None, w1)
      | (Inr cgm0, w1) \<Rightarrow>
          (case Membership_Finalizers_Finalize now w1 cgm0 of
             (finalizeResult, Some err, cgm, w2) \<Rightarrow>
               (noRequeue, Some (Wrapped ''failed to run finalizers for ContactGroupMembership'' err),
                Some cgm, w2)
           | (finalizeResult, None, cgm, w2) \<Rightarrow>
               if Updated finalizeResult then
                 (case Update_Membership w2 cgm of
                    (Some updateErr, w3) \<Rightarrow>
                      if apierrors_IsConflict updateErr then (\<lparr>Requeue = True\<rparr>, None, Some cgm, w3)
                      else (noRequeue, Some updateErr, Some cgm, w3)
                  | (None, w3) \<Rightarrow> (noRequeue, None, Some cgm, w3))
               else
                 (case getReferencedResources w2 cgm of
                    (Inl err, w3) \<Rightarrow>
                      (noRequeue, Some (Wrapped ''failed to get referenced resources'' err), Some cgm, w3)
                  | (Inr (contact, contactGroup), w3) \<Rightarrow>
                      (case reconcileMembershipReady now w3 cgm contact contactGroup of
                         (reconcileError, cgm1, w4) \<Rightarrow>
                           (case PatchStatusIfChanged w4 cgm1 cgm (mStatus cgm) (mStatus cgm1) of
                              (Some err, w5) \<Rightarrow> (noRequeue, Some err, Some cgm1, w5)
                            | (None, w5) \<Rightarrow>
                                (case reconcileError of
                                   Some err \<Rightarrow> (noRequeue, Some err, Some cgm1, w5)
                                 | None \<Rightarrow> (noRequeue, None, Some cgm1, w5)))))))"

section \<open>The webhook handler\<close>

record Response =
  HttpStatus :: nat

text \<open>Modelled from the spec: the response constructors \<open>OkResponse\<close>,
  \<open>BadRequestResponse\<close>, \<open>UnauthorizedResponse\<close>, \<open>MethodNotAllowedResponse\<close> and
  \<open>InternalServerErrorResponse\<close> of the package are not among the source files.  The spec
  gives the responses as status codes only: 200 OK, 400 Bad Request, 401 Unauthorized,
  405 Method Not Allowed, 500 Internal Server Error.\<close>

definition OkResponse :: Response where
  "OkResponse = \<lparr>HttpStatus = 200\<rparr>"

definition BadRequestResponse :: Response where
  "BadRequestResponse = \<lparr>HttpStatus = 400\<rparr>"

definition UnauthorizedResponse :: Response where
  "UnauthorizedResponse = \<lparr>HttpStatus = 401\<rparr>"

definition MethodNotAllowedResponse :: Response where
  "MethodNotAllowedResponse = \<lparr>HttpStatus = 405\<rparr>"

definition InternalServerErrorResponse :: Response where
  "InternalServerErrorResponse = \<lparr>HttpStatus = 500\<rparr>"

text \<open>pkg/loops: the events.  Of the identity of the contact the handler reads the user
  id, of the mailing list its id.\<close>

record ContactIdentity =
  IdentityID :: string
  IdentityEmail :: string
  UserID :: string

record WebhookEvent =
  EventName :: string
  EventTime :: int
  WebhookSchemaVersion :: string
  ContactIdentity :: ContactIdentity

record MailingList =
  MailingListID :: string
  MailingListName :: string
  Description :: string
  IsPublic :: bool

record MailingListEvent =
  Event :: WebhookEvent
  MailingList :: MailingList

text \<open>\<open>Request\<close>: each of the three fields is a pointer, here an option.  \<open>ServeHTTP\<close>
  always sets \<open>BaseEvent\<close> and one of the two events.\<close>

record Request =
  MailingListSubscribedEvent :: "MailingListEvent option"
  MailingListUnsubscribedEvent :: "MailingListEvent option"
  BaseEvent :: "WebhookEvent option"

subsection \<open>The lookups\<close>

definition getContactByProviderID :: "World \<Rightarrow> string \<Rightarrow> (go_error + Contact option) \<times> World" where
  "getContactByProviderID w providerID =
     (case List_Contacts w providerID of
        (Inl err, w1) \<Rightarrow> (Inl err, w1)
      | (Inr [], w1) \<Rightarrow> (Inr None, w1)
      | (Inr (item # items), w1) \<Rightarrow> (Inr (Some item), w1))"

definition getContactGroupByProviderID ::
  "World \<Rightarrow> string \<Rightarrow> (go_error + ContactGroup option) \<times> World" where
  "getContactGroupByProviderID w providerID =
     (case List_ContactGroups w providerID of
        (Inl err, w1) \<Rightarrow> (Inl err, w1)
      | (Inr [], w1) \<Rightarrow> (Inr None, w1)
      | (Inr (item # items), w1) \<Rightarrow> (Inr (Some item), w1))"

definition contactReference :: "Contact \<Rightarrow> Reference" where
  "contactReference contact = \<lparr>RefName = Name (cMeta contact), RefNamespace = Namespace (cMeta contact)\<rparr>"

definition groupReference :: "ContactGroup \<Rightarrow> Reference" where
  "groupReference grp = \<lparr>RefName = Name (gMeta grp), RefNamespace = Namespace (gMeta grp)\<rparr>"

definition getContactGroupMembershipRemoval ::
  "World \<Rightarrow> Contact \<Rightarrow> ContactGroup \<Rightarrow> (go_error + ContactGroupMembershipRemoval option) \<times> World" where
  "getContactGroupMembershipRemoval w contact grp =
     (case List_Removals w
             (buildGroupMembershipRemovalIndexKey (contactReference contact) (groupReference grp)) of
        (Inl err, w1) \<Rightarrow> (Inl err, w1)
      | (Inr [], w1) \<Rightarrow> (Inr None, w1)
      | (Inr (item # items), w1) \<Rightarrow> (Inr (Some item), w1))"

subsection \<open>The writes\<close>

definition createContactGroupMembership :: "World \<Rightarrow> Contact \<Rightarrow> ContactGroup \<Rightarrow> go_error option \<times> World" where
  "createContactGroupMembership w contact grp =
     Create_Membership w
       \<lparr>mMeta = emptyMeta\<lparr>GenerateName := Name (gMeta grp) @ ''-'' @ Name (cMeta contact),
                           Namespace := Namespace (gMeta grp)\<rparr>,
        mSpec = \<lparr>ContactRef = contactReference contact, ContactGroupRef = groupReference grp\<rparr>,
        mStatus = emptyStatus\<rparr>"

definition deleteContactGroupMembershipRemoval ::
  "World \<Rightarrow> ContactGroupMembershipRemoval \<Rightarrow> go_error option \<times> World" where
  "deleteContactGroupMembershipRemoval w removal = Delete_Removal w removal"

definition createContactGroupMembershipRemoval ::
  "World \<Rightarrow> Contact \<Rightarrow> ContactGroup \<Rightarrow> go_error option \<times> World" where
  "createContactGroupMembershipRemoval w contact grp =
     Create_Removal w
       \<lparr>rMeta = emptyMeta\<lparr>GenerateName := Name (gMeta grp) @ ''-'' @ Name (cMeta contact),
                           Namespace := Namespace (gMeta grp)\<rparr>,
        rSpec = \<lparr>ContactRef = contactReference contact, ContactGroupRef = groupReference grp\<rparr>\<rparr>"

subsection \<open>The two event paths\<close>

definition handleSubscribed :: "World \<Rightarrow> Contact \<Rightarrow> ContactGroup \<Rightarrow> Response \<times> World" where
  "handleSubscribed w contact grp =
     (case getContactGroupMembershipRemoval w contact grp of
        (Inl err, w1) \<Rightarrow>
          if \<not> apierrors_IsNotFound err then (InternalServerErrorResponse, w1)
          else
            (case createContactGroupMembership w1 contact grp of
               (Some cerr, w2) \<Rightarrow>
                 if \<not> apierrors_IsAlreadyExists cerr then (InternalServerErrorResponse, w2)
                 else (OkResponse, w2)
             | (None, w2) \<Rightarrow> (OkResponse, w2))
      | (Inr removal, w1) \<Rightarrow>
          (case (case removal of
                   Some rm \<Rightarrow> deleteContactGroupMembershipRemoval w1 rm
                 | None \<Rightarrow> (None, w1)) of
             (Some derr, w2) \<Rightarrow> (InternalServerErrorResponse, w2)
           | (None, w2) \<Rightarrow>
               (case createContactGroupMembership w2 contact grp of
                  (Some cerr, w3) \<Rightarrow>
                    if \<not> apierrors_IsAlreadyExists cerr then (InternalServerErrorResponse, w3)
                    else (OkResponse, w3)
                | (None, w3) \<Rightarrow> (OkResponse, w3))))"

definition handleUnsubscribed :: "World \<Rightarrow> Contact \<Rightarrow> ContactGroup \<Rightarrow> Response \<times> World" where
  "handleUnsubscribed w contact grp =
     (case getContactGroupMembershipRemoval w contact grp of
        (Inl err, w1) \<Rightarrow>
          if \<not> apierrors_IsNotFound err then (InternalServerErrorResponse, w1)
          else
            (case createContactGroupMembershipRemoval w1 contact grp of
               (Some cerr, w2) \<Rightarrow> (InternalServerErrorResponse, w2)
             | (None, w2) \<Rightarrow> (OkResponse, w2))
      | (Inr (Some removal), w1) \<Rightarrow> (OkResponse, w1)
      | (Inr None, w1) \<Rightarrow>
          (case createContactGroupMembershipRemoval w1 contact grp of
             (Some cerr, w2) \<Rightarrow> (InternalServerErrorResponse, w2)
           | (None, w2) \<Rightarrow> (OkResponse, w2)))"

subsection \<open>The handler of NewLoopsContactGroupMembershipWebhookV1\<close>

text \<open>A request without \<open>BaseEvent\<close> makes the handler dereference \<open>nil\<close>; \<open>ServeHTTP\<close>
  recovers the panic and answers 500.\<close>

definition groupIDOf :: "Request \<Rightarrow> string" where
  "groupIDOf req =
     (let groupID = (case MailingListSubscribedEvent req of
                       Some ev \<Rightarrow> MailingListID (MailingList ev)
                     | None \<Rightarrow> [])
      in (case MailingListUnsubscribedEvent req of
            Some ev \<Rightarrow> MailingListID (MailingList ev)
          | None \<Rightarrow> groupID))"

definition Handle :: "World \<Rightarrow> Request \<Rightarrow> Response \<times> World" where
  "Handle w req =
     (case BaseEvent req of
        None \<Rightarrow> (InternalServerErrorResponse, w)
      | Some baseEvent \<Rightarrow>
          (let userUID = UserID (ContactIdentity baseEvent) in
           if userUID = [] then (BadRequestResponse, w)
           else
             (case getContactByProviderID w userUID of
                (Inl err, w1) \<Rightarrow> (InternalServerErrorResponse, w1)
              | (Inr None, w1) \<Rightarrow> (BadRequestResponse, w1)
              | (Inr (Some contact), w1) \<Rightarrow>
                  (let groupID = groupIDOf req in
                   if groupID = [] then (BadRequestResponse, w1)
                   else
                     (case getContactGroupByProviderID w1 groupID of
                        (Inl err, w2) \<Rightarrow> (InternalServerErrorResponse, w2)
                      | (Inr None, w2) \<Rightarrow> (BadRequestResponse, w2)
                      | (Inr (Some grp), w2) \<Rightarrow>
                          if MailingListSubscribedEvent req \<noteq> None then handleSubscribed w2 contact grp
                          else if MailingListUnsubscribedEvent req \<noteq> None then
                            handleUnsubscribed w2 contact grp
                          else (BadRequestResponse, w2))))))"

section \<open>Notions used to state the properties\<close>

text \<open>\<open>strings.HasSuffix\<close>.\<close>

definition HasSuffix :: "string \<Rightarrow> string \<Rightarrow> bool" where
  "HasSuffix s suffix = HasPrefix (rev s) (rev suffix)"

text \<open>The reading of the signature header in the words of the specification: some
  space-separated token is a version, a comma and exactly the digest.\<close>

definition exact_digest_token :: "string \<Rightarrow> string \<Rightarrow> bool" where
  "exact_digest_token header digest =
     list_ex (\<lambda>tok. HasSuffix tok ('','' @ digest)) (Split header (CHR '' ''))"

text \<open>\<open>s'\<close> is \<open>s\<close> with one byte replaced by another.\<close>

definition single_byte_alteration :: "string \<Rightarrow> string \<Rightarrow> bool" where
  "single_byte_alteration s s' \<longleftrightarrow>
     length s' = length s \<and> length (filter (\<lambda>(x, y). x \<noteq> y) (zip s s')) = 1"

text \<open>What the properties need of the keyed hash: a digest of \<open>sha256.Size\<close> bytes, and
  that two given messages do not collide under a given key.\<close>

definition digest_size :: "(string \<Rightarrow> string \<Rightarrow> string) \<Rightarrow> bool" where
  "digest_size mac \<longleftrightarrow> (\<forall>k m. length (mac k m) = 32)"

definition collision_free :: "(string \<Rightarrow> string \<Rightarrow> string) \<Rightarrow> string \<Rightarrow> string \<Rightarrow> string \<Rightarrow> bool" where
  "collision_free mac k m m' \<longleftrightarrow> (m \<noteq> m' \<longrightarrow> mac k m \<noteq> mac k m')"

text \<open>A stand-in for the keyed hash, to instantiate the parameter in the examples: the
  first 32 bytes of message and key, padded.\<close>

definition example_mac :: "string \<Rightarrow> string \<Rightarrow> string" where
  "example_mac k m = take 32 (m @ k @ replicate 32 (CHR ''0''))"

text \<open>The 24 bits of a quantum of three bytes.\<close>

definition val3 :: "char \<Rightarrow> char \<Rightarrow> char \<Rightarrow> nat" where
  "val3 a b c = (of_char a * 256 + of_char b) * 256 + of_char c"

text \<open>The error of a signature that matches no entry of the header.\<close>

definition invalidSignature :: WebhookVerificationError where
  "invalidSignature = \<lparr>Code = ''INVALID_SIGNATURE'', Message = ''Invalid signature'', Err = ErrInvalidSignature\<rparr>"

text \<open>The answer the provider will give to the next call, and the state after a call.\<close>

definition nextLoopsReply :: "World \<Rightarrow> go_error option" where
  "nextLoopsReply w = (case loopsReplies w of [] \<Rightarrow> None | reply # replies \<Rightarrow> reply)"

definition answered :: "LoopsCall \<Rightarrow> World \<Rightarrow> World" where
  "answered c w = snd (Loops_call w c)"

text \<open>The answer the API server will give to the next client call, and the state once it
  has given it.\<close>

definition nextFault :: "World \<Rightarrow> go_error option" where
  "nextFault w = (case apiFaults w of [] \<Rightarrow> None | f # fs \<Rightarrow> f)"

definition served :: "World \<Rightarrow> World" where
  "served w = snd (takeFault w)"

subsection \<open>Example objects\<close>

text \<open>A contact, a group with a Loops list, a store that holds the two, and a controller
  configuration; the examples below start from them.  The hash of the configuration is
  a stand-in for the parameter.\<close>

definition example_contact :: Contact where
  "example_contact =
     \<lparr>cMeta = \<lparr>Name = ''alice'', GenerateName = [], Namespace = ''default'', UID = ''u1'',
               Generation = 1, DeletionTimestamp = None,
               Finalizers = [''notification.miloapis.com/loops-contact'']\<rparr>,
      cSpec = \<lparr>Email = ''a@example.com'', GivenName = ''Alice'', FamilyName = ''Doe''\<rparr>,
      cStatus = \<lparr>Conditions = [], Providers = []\<rparr>\<rparr>"

definition example_group :: ContactGroup where
  "example_group =
     \<lparr>gMeta = \<lparr>Name = ''news'', GenerateName = [], Namespace = ''default'', UID = ''g-uid'',
               Generation = 1, DeletionTimestamp = None, Finalizers = []\<rparr>,
      gProviders = [\<lparr>ProviderName = ''Loops'', ID = ''g1''\<rparr>]\<rparr>"

definition example_world :: World where
  "example_world =
     \<lparr>contacts = [example_contact], groups = [example_group], memberships = [], removals = [],
      apiFaults = [], nameSuffixes = [''x7k2p'', ''m4n8q''], requests = [],
      loopsReplies = [], loopsCalls = []\<rparr>"

definition example_controller :: LoopsContactController where
  "example_controller =
     \<lparr>NewsLetterContactGroupName = ''newsletter'', NewsLetterContactGroupNamespace = ''default'',
      Sum256Hex = (\<lambda>b. ''00'')\<rparr>"

text \<open>The contact after a successful creation, its generation not advanced since.\<close>

definition converged_contact :: Contact where
  "converged_contact =
     example_contact\<lparr>cStatus :=
       \<lparr>Conditions = [\<lparr>Type = ''LoopsContactReady'', Status = ConditionTrue, Reason = ''ContactCreated'',
                        Message = ''Loops contact created on email provider'',
                        LastTransitionTime = 10, ObservedGeneration = 1\<rparr>],
        Providers = [\<lparr>ProviderName = ''Loops'', ID = ''u1''\<rparr>]\<rparr>\<rparr>"

text \<open>The status patches among the requests the client has sent.\<close>

fun isStatusPatch :: "ApiRequest \<Rightarrow> bool" where
  "isStatusPatch (PatchContactStatus k st) = True"
| "isStatusPatch (PatchMembershipStatus k st) = True"
| "isStatusPatch (CreateMembership m) = False"
| "isStatusPatch (CreateRemoval x) = False"
| "isStatusPatch (DeleteRemoval k) = False"
| "isStatusPatch (UpdateContact c) = False"
| "isStatusPatch (UpdateMembership m) = False"

definition statusPatches :: "World \<Rightarrow> ApiRequest list" where
  "statusPatches w = filter isStatusPatch (requests w)"

text \<open>A membership of the example contact in the example group, as the store holds it
  before its first reconciliation.\<close>

definition example_membership :: ContactGroupMembership where
  "example_membership =
     \<lparr>mMeta = \<lparr>Name = ''news-alice'', GenerateName = [], Namespace = ''default'', UID = ''m-uid'',
               Generation = 1, DeletionTimestamp = None,
               Finalizers = [''notification.miloapis.com/loops-contact-group-membership'']\<rparr>,
      mSpec = \<lparr>ContactRef = \<lparr>RefName = ''alice'', RefNamespace = ''default''\<rparr>,
               ContactGroupRef = \<lparr>RefName = ''news'', RefNamespace = ''default''\<rparr>\<rparr>,
      mStatus = \<lparr>Conditions = [], Providers = []\<rparr>\<rparr>"

text \<open>The membership after its creation at the provider.\<close>

definition created_membership :: ContactGroupMembership where
  "created_membership =
     example_membership\<lparr>mStatus :=
       \<lparr>Conditions = [\<lparr>Type = ''LoopsContactGroupMembershipReady'', Status = ConditionTrue,
                        Reason = ''ContactGroupMembershipCreated'',
                        Message = ''Loops contact group membership created on email provider'',
                        LastTransitionTime = 10, ObservedGeneration = 1\<rparr>],
        Providers = [\<lparr>ProviderName = ''Loops'', ID = ''u1''\<rparr>]\<rparr>\<rparr>"

text \<open>The invariant of a status: at most one Ready condition, at most one entry per
  provider name; and the store in which the status of every contact has it.\<close>

definition conditionCount :: "string \<Rightarrow> Condition list \<Rightarrow> nat" where
  "conditionCount t conds = length (filter (\<lambda>c. Type c = t) conds)"

definition status_ok :: "ResourceStatus \<Rightarrow> bool" where
  "status_ok st \<longleftrightarrow>
     conditionCount LoopsContactReadyCondition (Conditions st) \<le> 1 \<and> distinct (map ProviderName (Providers st))"

definition store_ok :: "World \<Rightarrow> bool" where
  "store_ok w = list_all (\<lambda>c. status_ok (cStatus c)) (contacts w)"

text \<open>The contact for which \<open>Finalizers.Finalize\<close> has nothing to do, and the contact
  that takes the creation case of the switch.\<close>

definition finalizersIdle :: "Contact \<Rightarrow> bool" where
  "finalizersIdle contact \<longleftrightarrow>
     (DeletionTimestamp (cMeta contact) = None) = (loopsContactFinalizerKey \<in> set (Finalizers (cMeta contact)))"

definition creationCase :: "Contact \<Rightarrow> bool" where
  "creationCase contact =
     (case FindStatusCondition (Conditions (cStatus contact)) LoopsContactReadyCondition of
        None \<Rightarrow> True
      | Some readyCond \<Rightarrow> Reason readyCond = LoopsContactNotCreatedReason)"

text \<open>The same for a membership.\<close>

definition membershipFinalizersIdle :: "ContactGroupMembership \<Rightarrow> bool" where
  "membershipFinalizersIdle cgm \<longleftrightarrow>
     (DeletionTimestamp (mMeta cgm) = None)
       = (loopsContactGroupMembershipFinalizerKey \<in> set (Finalizers (mMeta cgm)))"

definition membershipCreationCase :: "ContactGroupMembership \<Rightarrow> bool" where
  "membershipCreationCase cgm =
     (case FindStatusCondition (Conditions (mStatus cgm)) LoopsContactGroupMembershipReadyCondition of
        None \<Rightarrow> True
      | Some readyCond \<Rightarrow> Reason readyCond = LoopsContactGroupMembershipNotCreatedReason)"

section \<open>Facts about the library functions\<close>

lemma HasPrefix_iff: "HasPrefix s p \<longleftrightarrow> (\<exists>t. s = p @ t)"
  by (induction s p rule: HasPrefix.induct) auto

lemma Contains_iff: "Contains s substr \<longleftrightarrow> (\<exists>pre post. s = pre @ substr @ post)"
proof (induction s)
  case Nil
  then show ?case by auto
next
  case (Cons c cs)
  show ?case
  proof
    assume "Contains (c # cs) substr"
    then consider "HasPrefix (c # cs) substr" | "Contains cs substr" by auto
    then show "\<exists>pre post. c # cs = pre @ substr @ post"
    proof cases
      case 1
      then obtain t where "c # cs = substr @ t" by (auto simp: HasPrefix_iff)
      then have "c # cs = [] @ substr @ t" by simp
      then show ?thesis by blast
    next
      case 2
      with Cons obtain pre post where "cs = pre @ substr @ post" by auto
      then have "c # cs = (c # pre) @ substr @ post" by simp
      then show ?thesis by blast
    qed
  next
    assume "\<exists>pre post. c # cs = pre @ substr @ post"
    then obtain pre post where eq: "c # cs = pre @ substr @ post" by auto
    show "Contains (c # cs) substr"
    proof (cases pre)
      case Nil
      with eq have "HasPrefix (c # cs) substr" by (auto simp: HasPrefix_iff)
      then show ?thesis by simp
    next
      case (Cons p pre')
      with eq have "cs = pre' @ substr @ post" by simp
      with Cons.IH have "Contains cs substr" by blast
      then show ?thesis by simp
    qed
  qed
qed

lemma signatureFound_iff:
  "signatureFound sigs signature \<longleftrightarrow> (\<exists>sig \<in> set sigs. Contains sig ('','' @ signature))"
  by (induction sigs) auto

lemma Split_not_Nil: "Split s sep \<noteq> []"
  by (induction s) (auto split: list.splits)

lemma Split_no_sep: "sep \<notin> set s \<Longrightarrow> Split s sep = [s]"
  by (induction s) auto


lemma digits_eq:
  fixes x y c d n :: nat
  assumes "c < n" "d < n" and eq: "x * n + c = y * n + d"
  shows "x = y \<and> c = d"
proof -
  have "(x * n + c) mod n = c" "(y * n + d) mod n = d" using assms(1,2) by simp_all
  with eq have cd: "c = d" by metis
  have "(x * n + c) div n = x" "(y * n + d) div n = y" using assms(1,2) by simp_all
  with eq have "x = y" by metis
  with cd show ?thesis by simp
qed

lemma bytes3_eq:
  fixes a b c a' b' c' :: nat
  assumes "a < 256" "b < 256" "c < 256" "a' < 256" "b' < 256" "c' < 256"
    and eq: "(a * 256 + b) * 256 + c = (a' * 256 + b') * 256 + c'"
  shows "a = a' \<and> b = b' \<and> c = c'"
proof -
  from digits_eq[OF \<open>c < 256\<close> \<open>c' < 256\<close> eq]
  have ab: "a * 256 + b = a' * 256 + b'" and c: "c = c'" by blast+
  from digits_eq[OF \<open>b < 256\<close> \<open>b' < 256\<close> ab] c show ?thesis by blast
qed

lemma length_encodeStd: "length encodeStd = 64"
  by (simp add: encodeStd_def)

lemma distinct_encodeStd: "distinct encodeStd"
  by (simp add: encodeStd_def)

lemma encode6_in: "encode6 n \<in> set encodeStd"
  by (simp add: encode6_def length_encodeStd)

lemma encode6_inj: "encode6 m = encode6 n \<Longrightarrow> m mod 64 = n mod 64"
  by (simp add: encode6_def nth_eq_iff_index_eq distinct_encodeStd length_encodeStd)

lemma encode6_not_pad: "encode6 n \<noteq> padChar"
  using encode6_in[of n] by (auto simp: encodeStd_def padChar_def)

lemma sextets_eq:
  fixes v w :: nat
  assumes v: "v < 16777216" and w: "w < 16777216"
    and e3: "(v div 262144) mod 64 = (w div 262144) mod 64"
    and e2: "(v div 4096) mod 64 = (w div 4096) mod 64"
    and e1: "(v div 64) mod 64 = (w div 64) mod 64"
    and e0: "v mod 64 = w mod 64"
  shows "v = w"
proof -
  have d2: "\<And>x::nat. x div 4096 = x div 64 div 64" by (simp add: div_mult2_eq[symmetric])
  have d3: "\<And>x::nat. x div 262144 = x div 64 div 64 div 64" by (simp add: div_mult2_eq[symmetric])
  have small: "\<And>x::nat. x < 16777216 \<Longrightarrow> x div 262144 < 64" by (simp add: less_mult_imp_div_less)
  have "v div 262144 = w div 262144"
    using e3 small[OF v] small[OF w] by simp
  then have "v div 64 div 64 div 64 = w div 64 div 64 div 64" by (simp add: d3)
  moreover have "v div 64 div 64 mod 64 = w div 64 div 64 mod 64" using e2 by (simp add: d2)
  ultimately have "v div 64 div 64 = w div 64 div 64"
    by (metis div_mult_mod_eq)
  with e1 have "v div 64 = w div 64"
    by (metis div_mult_mod_eq)
  with e0 show ?thesis
    by (metis div_mult_mod_eq)
qed


lemma val_bound:
  fixes x y z :: nat
  assumes "x < 256" "y < 256" "z < 256"
  shows "(x * 256 + y) * 256 + z < 16777216"
proof -
  have "(x * 256 + y) * 256 + z = x * 65536 + y * 256 + z" by simp
  with assms show ?thesis by linarith
qed

lemma val3_less: "val3 a b c < 16777216"
  unfolding val3_def by (rule val_bound) simp_all

lemma val3_inj: "val3 a b c = val3 a' b' c' \<Longrightarrow> a = a' \<and> b = b' \<and> c = c'"
  unfolding val3_def
  using bytes3_eq[of "of_char a" "of_char b" "of_char c" "of_char a'" "of_char b'" "of_char c'"]
  by simp

lemma quantum_inj:
  assumes "encode6 (val3 a b c div 262144) = encode6 (val3 a' b' c' div 262144)"
    and "encode6 (val3 a b c div 4096) = encode6 (val3 a' b' c' div 4096)"
    and "encode6 (val3 a b c div 64) = encode6 (val3 a' b' c' div 64)"
    and "encode6 (val3 a b c) = encode6 (val3 a' b' c')"
  shows "a = a' \<and> b = b' \<and> c = c'"
  using assms sextets_eq[OF val3_less[of a b c] val3_less[of a' b' c']] val3_inj
  by (meson encode6_inj)

lemma val3_low0: "val3 a b (CHR 0x00) mod 64 = 0"
proof -
  have "val3 a b (CHR 0x00) = 64 * (4 * (of_char a * 256 + of_char b))" by (simp add: val3_def)
  then show ?thesis by (simp only: mod_mult_self1_is_0)
qed

lemma val3_low00: "val3 a (CHR 0x00) (CHR 0x00) div 64 mod 64 = 0"
proof -
  have "val3 a (CHR 0x00) (CHR 0x00) = 64 * (64 * (16 * of_char a))" by (simp add: val3_def)
  then have "val3 a (CHR 0x00) (CHR 0x00) div 64 = 64 * (16 * of_char a)" by simp
  then show ?thesis by (simp only: mod_mult_self1_is_0)
qed

lemma quantum2_inj:
  assumes "encode6 (val3 a b (CHR 0x00) div 262144) = encode6 (val3 a' b' (CHR 0x00) div 262144)"
    and "encode6 (val3 a b (CHR 0x00) div 4096) = encode6 (val3 a' b' (CHR 0x00) div 4096)"
    and "encode6 (val3 a b (CHR 0x00) div 64) = encode6 (val3 a' b' (CHR 0x00) div 64)"
  shows "a = a' \<and> b = b'"
proof -
  have "val3 a b (CHR 0x00) = val3 a' b' (CHR 0x00)"
    using assms(1,2,3)[THEN encode6_inj]
    by (intro sextets_eq[OF val3_less val3_less]) (simp_all only: val3_low0)
  then show ?thesis by (auto dest: val3_inj)
qed

lemma quantum1_inj:
  assumes "encode6 (val3 a (CHR 0x00) (CHR 0x00) div 262144) = encode6 (val3 a' (CHR 0x00) (CHR 0x00) div 262144)"
    and "encode6 (val3 a (CHR 0x00) (CHR 0x00) div 4096) = encode6 (val3 a' (CHR 0x00) (CHR 0x00) div 4096)"
  shows "a = a'"
proof -
  have "val3 a (CHR 0x00) (CHR 0x00) = val3 a' (CHR 0x00) (CHR 0x00)"
    using assms(1,2)[THEN encode6_inj]
    by (intro sextets_eq[OF val3_less val3_less]) (simp_all only: val3_low0 val3_low00)
  then show ?thesis by (auto dest: val3_inj)
qed

lemma EncodeToString_val3:
  "EncodeToString (a # b # c # src) =
     encode6 (val3 a b c div 262144) # encode6 (val3 a b c div 4096) # encode6 (val3 a b c div 64)
       # encode6 (val3 a b c) # EncodeToString src"
  "EncodeToString [a, b] =
     [encode6 (val3 a b (CHR 0x00) div 262144), encode6 (val3 a b (CHR 0x00) div 4096),
      encode6 (val3 a b (CHR 0x00) div 64), padChar]"
  "EncodeToString [a] =
     [encode6 (val3 a (CHR 0x00) (CHR 0x00) div 262144), encode6 (val3 a (CHR 0x00) (CHR 0x00) div 4096),
      padChar, padChar]"
  by (simp_all add: val3_def Let_def algebra_simps)

lemma EncodeToString_inj: "EncodeToString s = EncodeToString t \<Longrightarrow> s = t"
proof (induction s arbitrary: t rule: EncodeToString.induct)
  case (1 a b c src)
  then show ?case
    by (cases t rule: EncodeToString.cases)
       (auto simp only: EncodeToString_val3 EncodeToString.simps(4) list.inject list.distinct
          encode6_not_pad encode6_not_pad[symmetric] dest: quantum_inj quantum2_inj quantum1_inj)
next
  case (2 a b)
  then show ?case
    by (cases t rule: EncodeToString.cases)
       (auto simp only: EncodeToString_val3 EncodeToString.simps(4) list.inject list.distinct
          encode6_not_pad encode6_not_pad[symmetric] dest: quantum_inj quantum2_inj quantum1_inj)
next
  case (3 a)
  then show ?case
    by (cases t rule: EncodeToString.cases)
       (auto simp only: EncodeToString_val3 EncodeToString.simps(4) list.inject list.distinct
          encode6_not_pad encode6_not_pad[symmetric] dest: quantum_inj quantum2_inj quantum1_inj)
next
  case 4
  then show ?case by (cases t rule: EncodeToString.cases) (simp_all add: Let_def)
qed


lemma set_EncodeToString: "set (EncodeToString s) \<subseteq> set encodeStd \<union> {padChar}"
  by (induction s rule: EncodeToString.induct) (auto simp: Let_def encode6_in)

lemma space_notin_EncodeToString: "CHR '' '' \<notin> set (EncodeToString s)"
  using set_EncodeToString[of s] by (auto simp: encodeStd_def padChar_def)

lemma comma_notin_EncodeToString: "CHR '','' \<notin> set (EncodeToString s)"
  using set_EncodeToString[of s] by (auto simp: encodeStd_def padChar_def)

lemma length_EncodeToString: "length (EncodeToString s) = 4 * ((length s + 2) div 3)"
proof (induction s rule: EncodeToString.induct)
  case (1 a b c src)
  have "(length src + 5) div 3 = Suc ((length src + 2) div 3)" by presburger
  with 1 show ?case by (simp add: Let_def add.commute)
qed (simp_all add: Let_def)






lemma HasSuffix_iff: "HasSuffix s suffix \<longleftrightarrow> (\<exists>t. s = t @ suffix)"
proof -
  have "HasSuffix s suffix \<longleftrightarrow> (\<exists>t. rev s = rev suffix @ t)"
    by (simp add: HasSuffix_def HasPrefix_iff)
  also have "\<dots> \<longleftrightarrow> (\<exists>t. s = t @ suffix)"
  proof
    assume "\<exists>t. rev s = rev suffix @ t"
    then obtain t where "rev s = rev suffix @ t" by blast
    then have "rev (rev s) = rev (rev suffix @ t)" by simp
    then have "s = rev t @ suffix" by simp
    then show "\<exists>t. s = t @ suffix" by blast
  next
    assume "\<exists>t. s = t @ suffix"
    then obtain t where "s = t @ suffix" by blast
    then have "rev s = rev suffix @ rev t" by simp
    then show "\<exists>t. rev s = rev suffix @ t" by blast
  qed
  finally show ?thesis .
qed

lemma single_byte_alteration_neq: "single_byte_alteration s s' \<Longrightarrow> s \<noteq> s'"
proof
  assume a: "single_byte_alteration s s'" and "s = s'"
  then have "filter (\<lambda>(x, y). x \<noteq> y) (zip s s') = []"
    by (auto simp: filter_empty_conv in_set_zip)
  with a show False by (simp add: single_byte_alteration_def)
qed

lemma single_byte_alteration_not_Nil: "single_byte_alteration s s' \<Longrightarrow> s \<noteq> [] \<and> s' \<noteq> []"
  by (auto simp: single_byte_alteration_def)

lemma verifyWebhook_accepts:
  assumes "webhook_id r \<noteq> []" "webhook_timestamp r \<noteq> []" "webhook_signature r \<noteq> []"
    and "2 \<le> length (Split secret (CHR ''_''))"
    and "DecodeString (Split secret (CHR ''_'') ! 1) = Some key"
  shows "verifyWebhook mac r body secret = None \<longleftrightarrow>
           list_ex (\<lambda>tok. Contains tok ('','' @ EncodeToString (mac key (webhook_id r @ ''.'' @ webhook_timestamp r @ ''.'' @ body))))
             (Split (webhook_signature r) (CHR '' ''))"
  using assms by (simp add: verifyWebhook_def Let_def signatureFound_iff list_ex_iff)

lemma Contains_comma_digest:
  assumes "CHR '','' \<notin> set d" "CHR '','' \<notin> set d'" "length d' = length d"
  shows "Contains (''v1,'' @ d) ('','' @ d') \<longleftrightarrow> d' = d"
proof
  assume "Contains (''v1,'' @ d) ('','' @ d')"
  then obtain pre post where eq: "''v1,'' @ d = pre @ '','' @ d' @ post"
    by (auto simp: Contains_iff)
  have "length pre = 2"
  proof -
    from eq have "(''v1,'' @ d) ! length pre = CHR '',''"
      by (metis append_Cons append_Nil nth_append_length)
    moreover have "\<And>i. i < length (''v1,'' @ d) \<Longrightarrow> (''v1,'' @ d) ! i = CHR '','' \<Longrightarrow> i = 2"
    proof -
      fix i assume i: "i < length (''v1,'' @ d)" and c: "(''v1,'' @ d) ! i = CHR '',''"
      show "i = 2"
      proof (rule ccontr)
        assume "i \<noteq> 2"
        then consider "i = 0" | "i = 1" | "i \<ge> 3" by linarith
        then show False
        proof cases
          case 1 with c show ?thesis by simp
        next
          case 2 with c show ?thesis by simp
        next
          case 3
          then have "(''v1,'' @ d) ! i = d ! (i - 3)" by (simp add: nth_append numeral_3_eq_3 nth_Cons')
          moreover have "i - 3 < length d" using i 3 by simp
          ultimately show ?thesis using c assms(1) by (metis nth_mem)
        qed
      qed
    qed
    moreover have "length pre < length (''v1,'' @ d)"
      using arg_cong[OF eq, of length] by simp
    ultimately show ?thesis by blast
  qed
  then have "pre = ''v1''" using eq by (cases pre; cases "tl pre") auto
  with eq have "d = d' @ post" by simp
  with assms(3) show "d' = d" by (metis append_eq_append_conv append_Nil2)
next
  assume "d' = d"
  then have "''v1,'' @ d = ''v1'' @ ('','' @ d') @ []" by simp
  then show "Contains (''v1,'' @ d) ('','' @ d')" unfolding Contains_iff by blast
qed

section \<open>The webhook verifier: claims C2 and C3\<close>


lemma DecodeString_example: "DecodeString ''c2VjcmV0'' = Some ''secret''"
  by (simp add: DecodeString_def decodeMap_def encodeStd_def padChar_def upt_rec char_of_def bit_Suc_0_iff)

lemma Split_secret_example: "Split ''whsec_c2VjcmV0'' (CHR ''_'') = [''whsec'', ''c2VjcmV0'']"
  by simp

lemma digest_size_example_mac: "digest_size example_mac"
  unfolding digest_size_def example_mac_def by auto

lemma example_mac_digest:
  "example_mac ''secret'' ''evt_1.1700000000.{}'' = ''evt_1.1700000000.{}secret0000000''"
  by (simp add: example_mac_def numeral_eq_Suc)

lemma example_mac_encoded:
  "EncodeToString ''evt_1.1700000000.{}secret0000000'' = ''ZXZ0XzEuMTcwMDAwMDAwMC57fXNlY3JldDAwMDAwMDA=''"
  by (simp add: encode6_def encodeStd_def padChar_def)

lemma Split_header_no_space:
  "Split (''v1,'' @ EncodeToString d @ post) (CHR '' '') = [''v1,'' @ EncodeToString d @ post]"
  if "CHR '' '' \<notin> set post"
  by (rule Split_no_sep) (use that space_notin_EncodeToString[of d] in auto)

text \<open>
  Claim C2, as the code has it.  For a request whose three headers are not empty and a
  secret that splits at \<open>_\<close> into at least two parts, the second of which decodes to the
  key: the verification succeeds if and only if some space-separated token of the
  signature header contains, anywhere in it, a comma followed by the base64-encoded
  digest of \<open>eventID.timestamp.body\<close>.  In particular a token that ends in the comma and
  exactly the digest is accepted.
\<close>

theorem verifyWebhook_accepts_iff_token_contains_digest:
  assumes "webhook_id r \<noteq> []" and "webhook_timestamp r \<noteq> []" and "webhook_signature r \<noteq> []"
    and "2 \<le> length (Split secret (CHR ''_''))"
    and "DecodeString (Split secret (CHR ''_'') ! 1) = Some key"
  shows "(verifyWebhook mac r body secret = None \<longleftrightarrow>
            list_ex (\<lambda>tok. Contains tok
                       ('','' @ EncodeToString (mac key (webhook_id r @ ''.'' @ webhook_timestamp r @ ''.'' @ body))))
              (Split (webhook_signature r) (CHR '' '')))
         \<and> (exact_digest_token (webhook_signature r)
               (EncodeToString (mac key (webhook_id r @ ''.'' @ webhook_timestamp r @ ''.'' @ body)))
             \<longrightarrow> verifyWebhook mac r body secret = None)"
proof -
  let ?d = "EncodeToString (mac key (webhook_id r @ ''.'' @ webhook_timestamp r @ ''.'' @ body))"
  have iff: "verifyWebhook mac r body secret = None \<longleftrightarrow>
      list_ex (\<lambda>tok. Contains tok ('','' @ ?d)) (Split (webhook_signature r) (CHR '' ''))"
    using assms by (rule verifyWebhook_accepts)
  have "HasSuffix tok ('','' @ ?d) \<Longrightarrow> Contains tok ('','' @ ?d)" for tok
  proof -
    assume "HasSuffix tok ('','' @ ?d)"
    then obtain t where "tok = t @ ('','' @ ?d) @ []" by (auto simp: HasSuffix_iff)
    then show ?thesis unfolding Contains_iff by blast
  qed
  then have "exact_digest_token (webhook_signature r) ?d \<Longrightarrow>
      list_ex (\<lambda>tok. Contains tok ('','' @ ?d)) (Split (webhook_signature r) (CHR '' ''))"
    unfolding exact_digest_token_def list_ex_iff by blast
  with iff show ?thesis by blast
qed

text \<open>The property of C2 at a request with two signatures, the second of which is the
  digest.\<close>

theorem verifyWebhook_accepts_iff_witness:
  "(verifyWebhook example_mac
      \<lparr>webhook_id = ''evt_1'', webhook_timestamp = ''1700000000'',
       webhook_signature = ''v0,AAAA v1,ZXZ0XzEuMTcwMDAwMDAwMC57fXNlY3JldDAwMDAwMDA=''\<rparr>
      ''{}'' ''whsec_c2VjcmV0'' = None
    \<longleftrightarrow> list_ex (\<lambda>tok. Contains tok
                ('','' @ EncodeToString (example_mac ''secret'' (''evt_1'' @ ''.'' @ ''1700000000'' @ ''.'' @ ''{}''))))
          (Split ''v0,AAAA v1,ZXZ0XzEuMTcwMDAwMDAwMC57fXNlY3JldDAwMDAwMDA='' (CHR '' '')))
   \<and> verifyWebhook example_mac
      \<lparr>webhook_id = ''evt_1'', webhook_timestamp = ''1700000000'',
       webhook_signature = ''v0,AAAA v1,ZXZ0XzEuMTcwMDAwMDAwMC57fXNlY3JldDAwMDAwMDA=''\<rparr>
      ''{}'' ''whsec_c2VjcmV0'' = None"
proof -
  let ?r = "\<lparr>webhook_id = ''evt_1'', webhook_timestamp = ''1700000000'',
       webhook_signature = ''v0,AAAA v1,ZXZ0XzEuMTcwMDAwMDAwMC57fXNlY3JldDAwMDAwMDA=''\<rparr>"
  have h1: "webhook_id ?r \<noteq> []" and h2: "webhook_timestamp ?r \<noteq> []" and h3: "webhook_signature ?r \<noteq> []"
    by simp_all
  have h4: "2 \<le> length (Split ''whsec_c2VjcmV0'' (CHR ''_''))"
    by (simp only: Split_secret_example) simp
  have h5: "DecodeString (Split ''whsec_c2VjcmV0'' (CHR ''_'') ! 1) = Some ''secret''"
    by (simp only: Split_secret_example DecodeString_example nth_Cons_0 nth_Cons_Suc One_nat_def)
  note t = verifyWebhook_accepts_iff_token_contains_digest
             [OF h1 h2 h3 h4 h5, of example_mac "''{}''", unfolded http_request.select_convs]
  have e: "exact_digest_token ''v0,AAAA v1,ZXZ0XzEuMTcwMDAwMDAwMC57fXNlY3JldDAwMDAwMDA=''
             (EncodeToString (example_mac ''secret'' (''evt_1'' @ ''.'' @ ''1700000000'' @ ''.'' @ ''{}'')))"
    by (simp add: example_mac_digest example_mac_encoded exact_digest_token_def HasSuffix_def
          del: EncodeToString.simps)
  from t e show ?thesis by blast
qed

text \<open>
  Claim C2 as stated asks for a token whose part after the comma is exactly the digest.
  Whatever the keyed hash is, the header \<open>v1,<digest>A\<close>, whose only token carries one
  byte more than the digest, is accepted.
\<close>

theorem verifyWebhook_accepts_longer_digest:
  "\<forall>mac.
     verifyWebhook mac
       \<lparr>webhook_id = ''evt_1'', webhook_timestamp = ''1700000000'',
        webhook_signature = ''v1,'' @ EncodeToString (mac ''secret'' ''evt_1.1700000000.{}'') @ ''A''\<rparr>
       ''{}'' ''whsec_c2VjcmV0'' = None
     \<and> \<not> exact_digest_token (''v1,'' @ EncodeToString (mac ''secret'' ''evt_1.1700000000.{}'') @ ''A'')
           (EncodeToString (mac ''secret'' ''evt_1.1700000000.{}''))"
proof (intro allI conjI)
  fix mac :: "string \<Rightarrow> string \<Rightarrow> string"
  define d where "d = EncodeToString (mac ''secret'' ''evt_1.1700000000.{}'')"
  define h where "h = ''v1,'' @ d @ ''A''"
  have sp: "Split h (CHR '' '') = [h]"
    unfolding h_def d_def by (rule Split_header_no_space) simp
  have "h = ''v1'' @ ('','' @ d) @ ''A''" by (simp add: h_def)
  then have c: "Contains h ('','' @ d)" unfolding Contains_iff by blast
  have hne: "h \<noteq> []" by (simp add: h_def)
  have "verifyWebhook mac
       \<lparr>webhook_id = ''evt_1'', webhook_timestamp = ''1700000000'', webhook_signature = h\<rparr>
       ''{}'' ''whsec_c2VjcmV0'' = None"
    using c sp hne d_def
    by (simp add: verifyWebhook_def Let_def Split_secret_example DecodeString_example
          del: Split.simps Contains.simps)
  then show "verifyWebhook mac
       \<lparr>webhook_id = ''evt_1'', webhook_timestamp = ''1700000000'',
        webhook_signature = ''v1,'' @ EncodeToString (mac ''secret'' ''evt_1.1700000000.{}'') @ ''A''\<rparr>
       ''{}'' ''whsec_c2VjcmV0'' = None"
    unfolding h_def d_def .
  have "\<not> exact_digest_token h d"
  proof
    assume "exact_digest_token h d"
    then have "HasSuffix h ('','' @ d)"
      by (simp only: exact_digest_token_def sp list_ex_Cons_iff list_ex_Nil_iff) simp
    then obtain t where t: "h = t @ '','' @ d" by (auto simp: HasSuffix_iff)
    then have "length h = length (t @ '','' @ d)" by (rule arg_cong)
    then have len: "length ''v1,'' = length t" by (simp add: h_def)
    from t have "''v1,'' @ (d @ ''A'') = t @ ('','' @ d)" by (simp add: h_def)
    with len have "d @ ''A'' = '','' @ d"
      using append_eq_append_conv[of "''v1,''" t "d @ ''A''" "'','' @ d"] by blast
    then have "CHR '','' \<in> set (d @ ''A'')" by (metis append_Cons list.set_intros(1))
    then show False using comma_notin_EncodeToString[of "mac ''secret'' ''evt_1.1700000000.{}''"]
      by (simp add: d_def)
  qed
  then show "\<not> exact_digest_token (''v1,'' @ EncodeToString (mac ''secret'' ''evt_1.1700000000.{}'') @ ''A'')
           (EncodeToString (mac ''secret'' ''evt_1.1700000000.{}''))"
    unfolding h_def d_def .
qed


lemma Split_fresh_header:
  "Split (''v1,'' @ EncodeToString d) (CHR '' '') = [''v1,'' @ EncodeToString d]"
  using Split_header_no_space[of "[]" d] by simp

lemma verifyWebhook_fresh_header:
  assumes "e \<noteq> []" and "t \<noteq> []"
    and "2 \<le> length (Split secret (CHR ''_''))"
    and "DecodeString (Split secret (CHR ''_'') ! 1) = Some key"
    and "digest_size mac"
  shows "verifyWebhook mac
           \<lparr>webhook_id = e, webhook_timestamp = t, webhook_signature = ''v1,'' @ EncodeToString (mac key m0)\<rparr>
           b secret = None
         \<longleftrightarrow> mac key (e @ ''.'' @ t @ ''.'' @ b) = mac key m0"
proof -
  let ?r = "\<lparr>webhook_id = e, webhook_timestamp = t, webhook_signature = ''v1,'' @ EncodeToString (mac key m0)\<rparr>"
  let ?d = "EncodeToString (mac key m0)"
  let ?d' = "EncodeToString (mac key (e @ ''.'' @ t @ ''.'' @ b))"
  have "webhook_id ?r \<noteq> []" "webhook_timestamp ?r \<noteq> []" "webhook_signature ?r \<noteq> []"
    using assms(1,2) by simp_all
  from verifyWebhook_accepts[OF this assms(3,4), of mac b]
  have "verifyWebhook mac ?r b secret = None \<longleftrightarrow>
          list_ex (\<lambda>tok. Contains tok ('','' @ ?d')) (Split (''v1,'' @ ?d) (CHR '' ''))"
    by (simp del: Split.simps)
  also have "\<dots> \<longleftrightarrow> Contains (''v1,'' @ ?d) ('','' @ ?d')"
    by (simp only: Split_fresh_header list_ex_Cons_iff list_ex_Nil_iff) simp
  also have "\<dots> \<longleftrightarrow> ?d' = ?d"
  proof (rule Contains_comma_digest)
    show "CHR '','' \<notin> set ?d" by (rule comma_notin_EncodeToString)
    show "CHR '','' \<notin> set ?d'" by (rule comma_notin_EncodeToString)
    show "length ?d' = length ?d"
      using assms(5) by (simp add: length_EncodeToString digest_size_def)
  qed
  also have "\<dots> \<longleftrightarrow> mac key (e @ ''.'' @ t @ ''.'' @ b) = mac key m0"
    by (auto dest: EncodeToString_inj)
  finally show ?thesis .
qed


lemma verifyWebhook_rejects_with:
  assumes "e \<noteq> []" and "t \<noteq> []" and "h \<noteq> []"
    and "2 \<le> length (Split secret (CHR ''_''))"
    and "DecodeString (Split secret (CHR ''_'') ! 1) = Some key"
    and "verifyWebhook mac \<lparr>webhook_id = e, webhook_timestamp = t, webhook_signature = h\<rparr> b secret \<noteq> None"
  shows "verifyWebhook mac \<lparr>webhook_id = e, webhook_timestamp = t, webhook_signature = h\<rparr> b secret
           = Some invalidSignature"
  using assms
  by (simp add: verifyWebhook_def Let_def invalidSignature_def del: Split.simps split: if_splits)

text \<open>
  Claim C3.  For a valid secret, event id and timestamp that are not empty, and the header
  \<open>v1,<digest>\<close> with the digest freshly computed over event id, timestamp and body, the
  verification succeeds; and it fails with the invalid-signature error for the same header
  once one byte of the body, of the event id or of the timestamp is replaced.  The keyed
  hash is a parameter of the model: it is taken to give 32 bytes and not to collide on
  the original and the altered signed content.
\<close>

theorem fresh_signature_verifies_and_alteration_fails:
  assumes "eventID \<noteq> []" and "timestamp \<noteq> []"
    and "2 \<le> length (Split secret (CHR ''_''))"
    and "DecodeString (Split secret (CHR ''_'') ! 1) = Some key"
    and "digest_size mac"
    and "header = ''v1,'' @ EncodeToString (mac key (eventID @ ''.'' @ timestamp @ ''.'' @ body))"
  shows "verifyWebhook mac
           \<lparr>webhook_id = eventID, webhook_timestamp = timestamp, webhook_signature = header\<rparr> body secret = None
       \<and> (\<forall>body'. single_byte_alteration body body'
              \<and> collision_free mac key (eventID @ ''.'' @ timestamp @ ''.'' @ body)
                   (eventID @ ''.'' @ timestamp @ ''.'' @ body')
            \<longrightarrow> verifyWebhook mac
                  \<lparr>webhook_id = eventID, webhook_timestamp = timestamp, webhook_signature = header\<rparr> body' secret
                = Some invalidSignature)
       \<and> (\<forall>eventID'. single_byte_alteration eventID eventID'
              \<and> collision_free mac key (eventID @ ''.'' @ timestamp @ ''.'' @ body)
                   (eventID' @ ''.'' @ timestamp @ ''.'' @ body)
            \<longrightarrow> verifyWebhook mac
                  \<lparr>webhook_id = eventID', webhook_timestamp = timestamp, webhook_signature = header\<rparr> body secret
                = Some invalidSignature)
       \<and> (\<forall>timestamp'. single_byte_alteration timestamp timestamp'
              \<and> collision_free mac key (eventID @ ''.'' @ timestamp @ ''.'' @ body)
                   (eventID @ ''.'' @ timestamp' @ ''.'' @ body)
            \<longrightarrow> verifyWebhook mac
                  \<lparr>webhook_id = eventID, webhook_timestamp = timestamp', webhook_signature = header\<rparr> body secret
                = Some invalidSignature)"
proof (intro conjI allI impI)
  let ?m0 = "eventID @ ''.'' @ timestamp @ ''.'' @ body"
  have hne: "header \<noteq> []" using assms(6) by simp
  note secret = assms(3,4)
  show "verifyWebhook mac
           \<lparr>webhook_id = eventID, webhook_timestamp = timestamp, webhook_signature = header\<rparr> body secret = None"
    unfolding assms(6)
    using verifyWebhook_fresh_header[OF assms(1,2) secret assms(5), of ?m0 body] by simp
  have reject: "verifyWebhook mac \<lparr>webhook_id = e, webhook_timestamp = t, webhook_signature = header\<rparr> b secret
                  = Some invalidSignature"
    if "e \<noteq> []" "t \<noteq> []" "e @ ''.'' @ t @ ''.'' @ b \<noteq> ?m0"
       "collision_free mac key ?m0 (e @ ''.'' @ t @ ''.'' @ b)" for e t b
  proof -
    from that(3,4) have "mac key (e @ ''.'' @ t @ ''.'' @ b) \<noteq> mac key ?m0"
      by (auto simp: collision_free_def)
    with verifyWebhook_fresh_header[OF that(1,2) secret assms(5), of ?m0 b]
    have "verifyWebhook mac \<lparr>webhook_id = e, webhook_timestamp = t, webhook_signature = header\<rparr> b secret \<noteq> None"
      unfolding assms(6) by simp
    with verifyWebhook_rejects_with[OF that(1,2) hne secret] show ?thesis by blast
  qed
  {
    fix body'
    assume a: "single_byte_alteration body body' \<and> collision_free mac key ?m0 (eventID @ ''.'' @ timestamp @ ''.'' @ body')"
    then have "body \<noteq> body'" by (blast dest: single_byte_alteration_neq)
    then have "eventID @ ''.'' @ timestamp @ ''.'' @ body' \<noteq> ?m0" by simp
    with a show "verifyWebhook mac
                  \<lparr>webhook_id = eventID, webhook_timestamp = timestamp, webhook_signature = header\<rparr> body' secret
                = Some invalidSignature"
      using reject[OF assms(1,2)] by blast
  }
  {
    fix eventID'
    assume a: "single_byte_alteration eventID eventID' \<and> collision_free mac key ?m0 (eventID' @ ''.'' @ timestamp @ ''.'' @ body)"
    then have sba: "single_byte_alteration eventID eventID'" by blast
    from sba have ne: "eventID \<noteq> eventID'" by (rule single_byte_alteration_neq)
    from sba have len: "length eventID' = length eventID" by (simp add: single_byte_alteration_def)
    from sba have ne': "eventID' \<noteq> []" by (blast dest: single_byte_alteration_not_Nil)
    from ne len have "eventID' @ ''.'' @ timestamp @ ''.'' @ body \<noteq> ?m0"
      by (simp add: append_eq_append_conv)
    with a ne' show "verifyWebhook mac
                  \<lparr>webhook_id = eventID', webhook_timestamp = timestamp, webhook_signature = header\<rparr> body secret
                = Some invalidSignature"
      using reject[OF _ assms(2)] by blast
  }
  {
    fix timestamp'
    assume a: "single_byte_alteration timestamp timestamp' \<and> collision_free mac key ?m0 (eventID @ ''.'' @ timestamp' @ ''.'' @ body)"
    then have sba: "single_byte_alteration timestamp timestamp'" by blast
    from sba have ne: "timestamp \<noteq> timestamp'" by (rule single_byte_alteration_neq)
    from sba have len: "length timestamp' = length timestamp" by (simp add: single_byte_alteration_def)
    from sba have ne': "timestamp' \<noteq> []" by (blast dest: single_byte_alteration_not_Nil)
    from ne len have "eventID @ ''.'' @ timestamp' @ ''.'' @ body \<noteq> ?m0"
      by (simp add: append_eq_append_conv)
    with a ne' show "verifyWebhook mac
                  \<lparr>webhook_id = eventID, webhook_timestamp = timestamp', webhook_signature = header\<rparr> body secret
                = Some invalidSignature"
      using reject[OF assms(1)] by blast
  }
qed


lemma example_header:
  "''v1,ZXZ0XzEuMTcwMDAwMDAwMC57fXNlY3JldDAwMDAwMDA='' =
     ''v1,'' @ EncodeToString (example_mac ''secret'' (''evt_1'' @ ''.'' @ ''1700000000'' @ ''.'' @ ''{}''))"
  by (simp add: example_mac_digest example_mac_encoded del: EncodeToString.simps)

text \<open>The property of C3 at a concrete request, with one byte replaced in each of the
  three parts in turn.\<close>

theorem fresh_signature_verifies_and_alteration_fails_witness:
  "verifyWebhook example_mac
     \<lparr>webhook_id = ''evt_1'', webhook_timestamp = ''1700000000'',
      webhook_signature = ''v1,ZXZ0XzEuMTcwMDAwMDAwMC57fXNlY3JldDAwMDAwMDA=''\<rparr> ''{}'' ''whsec_c2VjcmV0'' = None
   \<and> verifyWebhook example_mac
     \<lparr>webhook_id = ''evt_1'', webhook_timestamp = ''1700000000'',
      webhook_signature = ''v1,ZXZ0XzEuMTcwMDAwMDAwMC57fXNlY3JldDAwMDAwMDA=''\<rparr> ''[}'' ''whsec_c2VjcmV0''
       = Some invalidSignature
   \<and> verifyWebhook example_mac
     \<lparr>webhook_id = ''evt_2'', webhook_timestamp = ''1700000000'',
      webhook_signature = ''v1,ZXZ0XzEuMTcwMDAwMDAwMC57fXNlY3JldDAwMDAwMDA=''\<rparr> ''{}'' ''whsec_c2VjcmV0''
       = Some invalidSignature
   \<and> verifyWebhook example_mac
     \<lparr>webhook_id = ''evt_1'', webhook_timestamp = ''1700000001'',
      webhook_signature = ''v1,ZXZ0XzEuMTcwMDAwMDAwMC57fXNlY3JldDAwMDAwMDA=''\<rparr> ''{}'' ''whsec_c2VjcmV0''
       = Some invalidSignature"
proof -
  have h1: "''evt_1'' \<noteq> []" and h2: "''1700000000'' \<noteq> []" by simp_all
  have h3: "2 \<le> length (Split ''whsec_c2VjcmV0'' (CHR ''_''))"
    by (simp only: Split_secret_example) simp
  have h4: "DecodeString (Split ''whsec_c2VjcmV0'' (CHR ''_'') ! 1) = Some ''secret''"
    by (simp only: Split_secret_example DecodeString_example nth_Cons_0 nth_Cons_Suc One_nat_def)
  note t = fresh_signature_verifies_and_alteration_fails
             [OF h1 h2 h3 h4 digest_size_example_mac example_header]
  have b: "single_byte_alteration ''{}'' ''[}''"
    and e: "single_byte_alteration ''evt_1'' ''evt_2''"
    and ts: "single_byte_alteration ''1700000000'' ''1700000001''"
    by (simp_all add: single_byte_alteration_def)
  have cb: "collision_free example_mac ''secret'' (''evt_1'' @ ''.'' @ ''1700000000'' @ ''.'' @ ''{}'')
              (''evt_1'' @ ''.'' @ ''1700000000'' @ ''.'' @ ''[}'')"
    and ce: "collision_free example_mac ''secret'' (''evt_1'' @ ''.'' @ ''1700000000'' @ ''.'' @ ''{}'')
              (''evt_2'' @ ''.'' @ ''1700000000'' @ ''.'' @ ''{}'')"
    and ct: "collision_free example_mac ''secret'' (''evt_1'' @ ''.'' @ ''1700000000'' @ ''.'' @ ''{}'')
              (''evt_1'' @ ''.'' @ ''1700000001'' @ ''.'' @ ''{}'')"
    by (simp_all add: collision_free_def example_mac_def)
  from t b e ts cb ce ct show ?thesis by blast
qed

section \<open>Facts about the store and the provider\<close>


lemma Loops_call_eq: "Loops_call w c = (nextLoopsReply w, answered c w)"
  by (simp add: Loops_call_def nextLoopsReply_def answered_def split: list.splits)

lemma takeFault_eq: "takeFault w = (nextFault w, served w)"
  by (simp add: takeFault_def nextFault_def served_def split: list.splits)

lemma answered_fields [simp]:
  "loopsCalls (answered c w) = loopsCalls w @ [c]"
  "contacts (answered c w) = contacts w"
  "groups (answered c w) = groups w"
  "memberships (answered c w) = memberships w"
  "removals (answered c w) = removals w"
  "apiFaults (answered c w) = apiFaults w"
  "nameSuffixes (answered c w) = nameSuffixes w"
  "requests (answered c w) = requests w"
  by (simp_all add: answered_def Loops_call_def split: list.splits)

lemma served_fields [simp]:
  "loopsCalls (served w) = loopsCalls w"
  "loopsReplies (served w) = loopsReplies w"
  "contacts (served w) = contacts w"
  "groups (served w) = groups w"
  "memberships (served w) = memberships w"
  "removals (served w) = removals w"
  "nameSuffixes (served w) = nameSuffixes w"
  "requests (served w) = requests w"
  by (simp_all add: served_def takeFault_def split: list.splits)

lemma sent_fields [simp]:
  "loopsCalls (sent rq w) = loopsCalls w"
  "loopsReplies (sent rq w) = loopsReplies w"
  "contacts (sent rq w) = contacts w"
  "groups (sent rq w) = groups w"
  "memberships (sent rq w) = memberships w"
  "removals (sent rq w) = removals w"
  "nameSuffixes (sent rq w) = nameSuffixes w"
  "apiFaults (sent rq w) = apiFaults w"
  "requests (sent rq w) = requests w @ [rq]"
  by (simp_all add: sent_def)

lemma serverName_fields [simp]:
  "loopsCalls (snd (serverName m w)) = loopsCalls w"
  "loopsReplies (snd (serverName m w)) = loopsReplies w"
  "contacts (snd (serverName m w)) = contacts w"
  "groups (snd (serverName m w)) = groups w"
  "memberships (snd (serverName m w)) = memberships w"
  "removals (snd (serverName m w)) = removals w"
  "apiFaults (snd (serverName m w)) = apiFaults w"
  "requests (snd (serverName m w)) = requests w"
  by (simp_all add: serverName_def split: list.splits)

lemma Get_Contact_calls: "Get_Contact w k = (x, w') \<Longrightarrow> loopsCalls w' = loopsCalls w"
  by (auto simp: Get_Contact_def takeFault_eq split: option.splits)

lemma Update_Contact_calls: "Update_Contact w c = (x, w') \<Longrightarrow> loopsCalls w' = loopsCalls w"
  by (auto simp: Update_Contact_def takeFault_eq split: option.splits if_splits)

lemma Status_Patch_Contact_calls:
  "Status_Patch_Contact w c orig = (x, w') \<Longrightarrow> loopsCalls w' = loopsCalls w"
  by (auto simp: Status_Patch_Contact_def takeFault_eq split: option.splits if_splits)

lemma serverName_calls: "serverName m w = (m', w') \<Longrightarrow> loopsCalls w' = loopsCalls w"
  by (auto simp: serverName_def split: list.splits if_splits)

lemma Create_Membership_calls: "Create_Membership w m = (x, w') \<Longrightarrow> loopsCalls w' = loopsCalls w"
  by (auto simp: Create_Membership_def takeFault_eq split: option.splits prod.splits if_splits
        dest!: serverName_calls)

lemma addToNewsLetterList_calls:
  "addToNewsLetterList r now w c = (e, c', w') \<Longrightarrow> loopsCalls w' = loopsCalls w"
  by (auto simp: addToNewsLetterList_def Let_def split: option.splits prod.splits if_splits
        dest!: Create_Membership_calls)

lemma contactWriteBack_calls:
  "contactWriteBack r now w orig c = (res, err, c', w') \<Longrightarrow> loopsCalls w' = loopsCalls w"
  by (auto simp: contactWriteBack_def split: option.splits prod.splits if_splits
        dest!: addToNewsLetterList_calls Status_Patch_Contact_calls)

section \<open>The finalizer of the Contact controller: claim C8\<close>

lemma DeleteContact_result:
  "loopsContactFinalizer_DeleteContact w contact =
     ((case nextLoopsReply w of
         None \<Rightarrow> None
       | Some err \<Rightarrow> if IsNotFound err then None else Some (Wrapped ''failed to delete Loops contact'' err)),
      answered (DeleteContact (UID (cMeta contact))) w)"
  by (simp add: loopsContactFinalizer_DeleteContact_def Loops_call_eq split: option.splits)

text \<open>
  Claim C8.  The finalizer of a Contact calls the remote DeleteContact, once, with the
  contact's UID.  When the call succeeds or fails with not-found the finalizer returns no
  error; any other error is returned, wrapped.  For a contact under deletion that holds
  the finalizer key, \<open>Finalizers.Finalize\<close> accordingly removes the key and asks for the
  update (the record may be purged), or returns the error and leaves the contact as it is
  (the reconciliation fails and is retried).
\<close>

theorem contact_finalizer_outcome:
  "loopsContactFinalizer_Finalize w (ObjContact contact) =
     (\<lparr>Updated = False, StatusUpdated = False\<rparr>,
      (case nextLoopsReply w of
         None \<Rightarrow> None
       | Some err \<Rightarrow>
           if IsNotFound err then None
           else Some (Wrapped ''failed to delete Loops contact''
                        (Wrapped ''failed to delete Loops contact'' err))),
      answered (DeleteContact (UID (cMeta contact))) w)
   \<and> loopsCalls (answered (DeleteContact (UID (cMeta contact))) w)
       = loopsCalls w @ [DeleteContact (UID (cMeta contact))]
   \<and> (DeletionTimestamp (cMeta contact) \<noteq> None \<and> loopsContactFinalizerKey \<in> set (Finalizers (cMeta contact))
        \<longrightarrow> Contact_Finalizers_Finalize w contact =
             (case nextLoopsReply w of
                None \<Rightarrow>
                  (\<lparr>Updated = True, StatusUpdated = False\<rparr>, None,
                   contact\<lparr>cMeta := (cMeta contact)\<lparr>Finalizers :=
                     filter (\<lambda>f. f \<noteq> loopsContactFinalizerKey) (Finalizers (cMeta contact))\<rparr>\<rparr>,
                   answered (DeleteContact (UID (cMeta contact))) w)
              | Some err \<Rightarrow>
                  if IsNotFound err then
                    (\<lparr>Updated = True, StatusUpdated = False\<rparr>, None,
                     contact\<lparr>cMeta := (cMeta contact)\<lparr>Finalizers :=
                       filter (\<lambda>f. f \<noteq> loopsContactFinalizerKey) (Finalizers (cMeta contact))\<rparr>\<rparr>,
                     answered (DeleteContact (UID (cMeta contact))) w)
                  else
                    (\<lparr>Updated = False, StatusUpdated = False\<rparr>,
                     Some (Wrapped (''finalizer '' @ quoted loopsContactFinalizerKey @ '' failed'')
                            (Wrapped ''failed to delete Loops contact''
                              (Wrapped ''failed to delete Loops contact'' err))),
                     contact, answered (DeleteContact (UID (cMeta contact))) w)))"
proof -
  have fin: "loopsContactFinalizer_Finalize w (ObjContact contact) =
     (\<lparr>Updated = False, StatusUpdated = False\<rparr>,
      (case nextLoopsReply w of
         None \<Rightarrow> None
       | Some err \<Rightarrow>
           if IsNotFound err then None
           else Some (Wrapped ''failed to delete Loops contact''
                        (Wrapped ''failed to delete Loops contact'' err))),
      answered (DeleteContact (UID (cMeta contact))) w)"
    by (simp add: loopsContactFinalizer_Finalize_def DeleteContact_result split: option.splits)
  show ?thesis
    by (intro conjI impI, rule fin, simp)
       (simp add: Contact_Finalizers_Finalize_def fin Let_def split: option.splits)
qed


text \<open>The property of C8 for a contact under deletion, the provider answering 404 and
  500.\<close>

theorem contact_finalizer_outcome_witness:
  "Contact_Finalizers_Finalize (example_world\<lparr>loopsReplies := [Some (LoopsError 404 ''gone'')]\<rparr>)
     (example_contact\<lparr>cMeta := (cMeta example_contact)\<lparr>DeletionTimestamp := Some 7\<rparr>\<rparr>)
   = (\<lparr>Updated = True, StatusUpdated = False\<rparr>, None,
      example_contact\<lparr>cMeta := (cMeta example_contact)\<lparr>DeletionTimestamp := Some 7, Finalizers := []\<rparr>\<rparr>,
      example_world\<lparr>loopsCalls := [DeleteContact ''u1'']\<rparr>)
   \<and> Contact_Finalizers_Finalize (example_world\<lparr>loopsReplies := [Some (LoopsError 500 ''down'')]\<rparr>)
     (example_contact\<lparr>cMeta := (cMeta example_contact)\<lparr>DeletionTimestamp := Some 7\<rparr>\<rparr>)
   = (\<lparr>Updated = False, StatusUpdated = False\<rparr>,
      Some (Wrapped (''finalizer '' @ quoted loopsContactFinalizerKey @ '' failed'')
             (Wrapped ''failed to delete Loops contact''
               (Wrapped ''failed to delete Loops contact'' (LoopsError 500 ''down'')))),
      example_contact\<lparr>cMeta := (cMeta example_contact)\<lparr>DeletionTimestamp := Some 7\<rparr>\<rparr>,
      example_world\<lparr>loopsCalls := [DeleteContact ''u1'']\<rparr>)"
  using contact_finalizer_outcome
          [of "example_world\<lparr>loopsReplies := [Some (LoopsError 404 ''gone'')]\<rparr>"
              "example_contact\<lparr>cMeta := (cMeta example_contact)\<lparr>DeletionTimestamp := Some 7\<rparr>\<rparr>"]
        contact_finalizer_outcome
          [of "example_world\<lparr>loopsReplies := [Some (LoopsError 500 ''down'')]\<rparr>"
              "example_contact\<lparr>cMeta := (cMeta example_contact)\<lparr>DeletionTimestamp := Some 7\<rparr>\<rparr>"]
  by (simp add: example_world_def example_contact_def loopsContactFinalizerKey_def nextLoopsReply_def
        IsNotFound_def answered_def Loops_call_def)

section \<open>A converged Contact: claim C5\<close>

text \<open>
  Claim C5.  When the Contact read by the reconciler is not under deletion and has a Ready
  condition whose reason is not NotCreated (Created or Updated in particular) and whose
  observed generation is the contact's generation, the reconciliation makes no call to the
  remote provider: the calls the provider has received are the same before and after.
\<close>

theorem converged_contact_no_remote_calls:
  assumes "Get_Contact w req = (Inr contact, w1)"
    and "DeletionTimestamp (cMeta contact) = None"
    and "FindStatusCondition (Conditions (cStatus contact)) LoopsContactReadyCondition = Some readyCond"
    and "Reason readyCond \<noteq> LoopsContactNotCreatedReason"
    and "ObservedGeneration readyCond = Generation (cMeta contact)"
  shows "loopsCalls (snd (snd (snd (Contact_Reconcile r now w req)))) = loopsCalls w"
proof -
  have w1: "loopsCalls w1 = loopsCalls w"
    using Get_Contact_calls[OF assms(1)] .
  show ?thesis
  proof (cases "loopsContactFinalizerKey \<in> set (Finalizers (cMeta contact))")
    case False
    then have fin: "Contact_Finalizers_Finalize w1 contact =
        (\<lparr>Updated = True, StatusUpdated = False\<rparr>, None,
         contact\<lparr>cMeta := (cMeta contact)\<lparr>Finalizers := Finalizers (cMeta contact) @ [loopsContactFinalizerKey]\<rparr>\<rparr>, w1)"
      using assms(2) by (simp add: Contact_Finalizers_Finalize_def Let_def)
    show ?thesis
      using w1
      by (auto simp: Contact_Reconcile_def assms(1) fin split: option.splits prod.splits
            dest!: Update_Contact_calls)
  next
    case True
    then have fin: "Contact_Finalizers_Finalize w1 contact =
        (\<lparr>Updated = False, StatusUpdated = False\<rparr>, None, contact, w1)"
      using assms(2) by (simp add: Contact_Finalizers_Finalize_def Let_def)
    have rr: "reconcileReady now w1 contact = (Inr contact, w1)"
      using assms(3,4,5) by (simp add: reconcileReady_def)
    obtain res err c' w' where wb: "contactWriteBack r now w1 contact contact = (res, err, c', w')"
      by (metis prod_cases4)
    show ?thesis
      using w1 contactWriteBack_calls[OF wb]
      by (simp add: Contact_Reconcile_def assms(1) fin rr wb)
  qed
qed



text \<open>The property of C5 for the contact after its creation.\<close>

theorem converged_contact_no_remote_calls_witness:
  "loopsCalls (snd (snd (snd (Contact_Reconcile example_controller 10
      (example_world\<lparr>contacts := [converged_contact]\<rparr>) (''default'', ''alice''))))) = []"
proof -
  let ?w = "example_world\<lparr>contacts := [converged_contact]\<rparr>"
  let ?rc = "\<lparr>Type = ''LoopsContactReady'', Status = ConditionTrue, Reason = ''ContactCreated'',
                        Message = ''Loops contact created on email provider'',
                        LastTransitionTime = 10, ObservedGeneration = 1\<rparr>"
  have h1: "Get_Contact ?w (''default'', ''alice'') = (Inr converged_contact, ?w)"
    by (simp add: Get_Contact_def takeFault_def example_world_def converged_contact_def
          example_contact_def key_of_def)
  have h2: "DeletionTimestamp (cMeta converged_contact) = None"
    by (simp add: converged_contact_def example_contact_def)
  have h3: "FindStatusCondition (Conditions (cStatus converged_contact)) LoopsContactReadyCondition = Some ?rc"
    by (simp add: converged_contact_def FindStatusCondition_def LoopsContactReadyCondition_def)
  have h4: "Reason ?rc \<noteq> LoopsContactNotCreatedReason"
    by (simp add: LoopsContactNotCreatedReason_def)
  have h5: "ObservedGeneration ?rc = Generation (cMeta converged_contact)"
    by (simp add: converged_contact_def example_contact_def)
  from converged_contact_no_remote_calls[OF h1 h2 h3 h4 h5, of example_controller 10]
  show ?thesis by (simp add: example_world_def)
qed

section \<open>The reconcilers on the example objects\<close>

lemmas client_defs =
  Get_Contact_def Get_ContactGroup_def Get_Membership_def List_Contacts_def List_ContactGroups_def
  List_Removals_def Create_Membership_def Create_Removal_def Delete_Removal_def Update_Contact_def
  Update_Membership_def Status_Patch_Contact_def Status_Patch_Membership_def PatchStatusIfChanged_def
  takeFault_def sent_def serverName_def Loops_call_def key_of_def mergeStatus_def
  FindStatusCondition_def emptyMeta_def emptyStatus_def

lemmas contact_controller_defs =
  Contact_Reconcile_def contactWriteBack_def reconcileReady_def contactCreation_def contactUpdate_def
  upsertContact_def setContactCondition_def isNewsletterContact_def addToNewsLetterList_def
  generateCgmName_def Contact_Finalizers_Finalize_def loopsContactFinalizer_Finalize_def
  loopsContactFinalizer_DeleteContact_def noRequeue_def
  loopsContactFinalizerKey_def LoopsContactReadyCondition_def LoopsContactNotCreatedReason_def
  LoopsContactCreatedReason_def LoopsContactUpdatedReason_def LoopsContactNotUpdatedReason_def
  NewsLetterAddedCondition_def NewsLetterAddedReason_def NewsLetterNotAddedReason_def

lemmas membership_controller_defs =
  Membership_Reconcile_def reconcileMembershipReady_def membershipCreation_def
  Membership_Finalizers_Finalize_def loopsContactGroupMembershipFinalizer_Finalize_def
  membershipFinalizerRemote_def asMembership_def setMembershipCondition_def
  addContactToMailingList_def removeContactFromMailingList_def getMailingListId_def
  getReferencedResources_def noRequeue_def
  LoopsContactGroupMembershipReadyCondition_def LoopsContactGroupMembershipNotCreatedReason_def
  LoopsContactGroupMembershipCreatedReason_def LoopsContactGroupMembershipNotFinalizedReason_def
  loopsContactGroupMembershipFinalizerKey_def

lemmas example_defs =
  example_world_def example_contact_def example_group_def example_controller_def
  converged_contact_def example_membership_def

lemma Contact_Reconcile_example:
  "Contact_Reconcile example_controller 10 example_world (''default'', ''alice'') =
     (\<lparr>Requeue = False\<rparr>, None, Some converged_contact,
      example_world\<lparr>contacts := [converged_contact],
        requests := [PatchContactStatus (''default'', ''alice'') (cStatus converged_contact)],
        loopsCalls := [UpsertContact \<lparr>ReqEmail = ''a@example.com'', ReqUserID = ''u1'',
                        ReqFirstName = ''Alice'', ReqLastName = ''Doe'',
                        ReqSource = ''email-provider-loops-k8s-controller'', ReqSubscribed = Some True\<rparr>]\<rparr>)"
  by (simp add: contact_controller_defs client_defs example_defs Let_def)

lemma Contact_Reconcile_converged:
  "Contact_Reconcile example_controller 10 (example_world\<lparr>contacts := [converged_contact]\<rparr>)
      (''default'', ''alice'') =
     (\<lparr>Requeue = False\<rparr>, None, Some converged_contact, example_world\<lparr>contacts := [converged_contact]\<rparr>)"
  by (simp add: contact_controller_defs client_defs example_defs Let_def)


lemma Membership_Reconcile_example:
  "Membership_Reconcile 10 (example_world\<lparr>memberships := [example_membership]\<rparr>) (''default'', ''news-alice'') =
     (\<lparr>Requeue = False\<rparr>, None, Some created_membership,
      example_world\<lparr>memberships := [created_membership],
        requests := [PatchMembershipStatus (''default'', ''news-alice'') (mStatus created_membership)],
        loopsCalls := [AddToMailingList ''u1'' ''g1'']\<rparr>)"
  by (simp add: membership_controller_defs client_defs example_defs created_membership_def Let_def)

lemma Membership_Reconcile_created:
  "Membership_Reconcile 10 (example_world\<lparr>memberships := [created_membership]\<rparr>) (''default'', ''news-alice'') =
     (\<lparr>Requeue = False\<rparr>, None, Some created_membership,
      example_world\<lparr>memberships := [created_membership]\<rparr>)"
  by (simp add: membership_controller_defs client_defs example_defs created_membership_def Let_def)


lemma Get_Contact_example:
  "Get_Contact example_world (''default'', ''alice'') = (Inr example_contact, example_world)"
  by (simp add: client_defs example_defs)

lemma Get_Contact_converged:
  "Get_Contact (example_world\<lparr>contacts := [converged_contact]\<rparr>) (''default'', ''alice'')
     = (Inr converged_contact, example_world\<lparr>contacts := [converged_contact]\<rparr>)"
  by (simp add: client_defs example_defs)

lemma Get_Membership_example:
  "Get_Membership (example_world\<lparr>memberships := [example_membership]\<rparr>) (''default'', ''news-alice'')
     = (Inr example_membership, example_world\<lparr>memberships := [example_membership]\<rparr>)"
  by (simp add: client_defs example_defs)

lemma Get_Membership_created:
  "Get_Membership (example_world\<lparr>memberships := [created_membership]\<rparr>) (''default'', ''news-alice'')
     = (Inr created_membership, example_world\<lparr>memberships := [created_membership]\<rparr>)"
  by (simp add: client_defs example_defs created_membership_def)

section \<open>The status write-back: claim C9\<close>


lemma statusPatches_simps [simp]:
  "statusPatches (answered c w) = statusPatches w"
  "statusPatches (served w) = statusPatches w"
  "statusPatches (sent rq w) = statusPatches w @ (if isStatusPatch rq then [rq] else [])"
  by (simp_all add: statusPatches_def)

lemma serverName_patches: "serverName m w = (m', w') \<Longrightarrow> statusPatches w' = statusPatches w"
  by (auto simp: serverName_def statusPatches_def split: list.splits if_splits)

lemma statusPatches_upd [simp]:
  "statusPatches (w\<lparr>contacts := cs\<rparr>) = statusPatches w"
  "statusPatches (w\<lparr>memberships := ms\<rparr>) = statusPatches w"
  "statusPatches (w\<lparr>removals := rs\<rparr>) = statusPatches w"
  by (simp_all add: statusPatches_def)

lemma Get_Contact_patches: "Get_Contact w k = (x, w') \<Longrightarrow> statusPatches w' = statusPatches w"
  by (auto simp: Get_Contact_def takeFault_eq split: option.splits)

lemma Get_ContactGroup_patches: "Get_ContactGroup w k = (x, w') \<Longrightarrow> statusPatches w' = statusPatches w"
  by (auto simp: Get_ContactGroup_def takeFault_eq split: option.splits)

lemma Get_Membership_patches: "Get_Membership w k = (x, w') \<Longrightarrow> statusPatches w' = statusPatches w"
  by (auto simp: Get_Membership_def takeFault_eq split: option.splits)

lemma Update_Contact_patches: "Update_Contact w c = (x, w') \<Longrightarrow> statusPatches w' = statusPatches w"
  by (auto simp: Update_Contact_def takeFault_eq split: option.splits if_splits)

lemma Update_Membership_patches: "Update_Membership w c = (x, w') \<Longrightarrow> statusPatches w' = statusPatches w"
  by (auto simp: Update_Membership_def takeFault_eq split: option.splits if_splits)

lemma Create_Membership_patches: "Create_Membership w m = (x, w') \<Longrightarrow> statusPatches w' = statusPatches w"
  by (auto simp: Create_Membership_def takeFault_eq split: option.splits prod.splits if_splits
        dest!: serverName_patches)

lemma Status_Patch_Contact_patches:
  "Status_Patch_Contact w c orig = (x, w') \<Longrightarrow>
     statusPatches w' = statusPatches w @ [PatchContactStatus (key_of (cMeta c)) (cStatus c)]"
  by (auto simp: Status_Patch_Contact_def takeFault_eq split: option.splits if_splits)

lemma Status_Patch_Membership_patches:
  "Status_Patch_Membership w c orig = (x, w') \<Longrightarrow>
     statusPatches w' = statusPatches w @ [PatchMembershipStatus (key_of (mMeta c)) (mStatus c)]"
  by (auto simp: Status_Patch_Membership_def takeFault_eq split: option.splits if_splits)

lemma PatchStatusIfChanged_patches:
  "PatchStatusIfChanged w obj orig old (mStatus obj) = (x, w') \<Longrightarrow>
     statusPatches w' = statusPatches w @
       (if mStatus obj \<noteq> old then [PatchMembershipStatus (key_of (mMeta obj)) (mStatus obj)] else [])"
  by (auto simp: PatchStatusIfChanged_def split: option.splits prod.splits if_splits
        dest!: Status_Patch_Membership_patches)

lemma upsertContact_patches: "upsertContact w c = (x, w') \<Longrightarrow> statusPatches w' = statusPatches w"
  by (auto simp: upsertContact_def Loops_call_eq split: option.splits)

lemma reconcileReady_patches:
  "reconcileReady now w c = (x, w') \<Longrightarrow> statusPatches w' = statusPatches w"
  by (auto simp: reconcileReady_def contactCreation_def contactUpdate_def Let_def
        split: option.splits prod.splits if_splits dest!: upsertContact_patches)

lemma addToNewsLetterList_patches:
  "addToNewsLetterList r now w c = (e, c', w') \<Longrightarrow>
     statusPatches w' = statusPatches w \<and> cMeta c' = cMeta c"
  by (auto simp: addToNewsLetterList_def Let_def setContactCondition_def
        split: option.splits prod.splits if_splits dest!: Create_Membership_patches)

lemma contactWriteBack_patches:
  assumes "contactWriteBack r now w orig c = (res, err, obj, w')"
  shows "\<exists>c'. obj = Some c' \<and>
       statusPatches w' = statusPatches w @
         (if cStatus c' \<noteq> cStatus orig then [PatchContactStatus (key_of (cMeta c')) (cStatus c')] else [])"
proof -
  obtain e c1 w1 where n:
    "(if isNewsletterContact c then addToNewsLetterList r now w c else (False, c, w)) = (e, c1, w1)"
    by (metis prod_cases3)
  then have w1: "statusPatches w1 = statusPatches w"
    by (auto split: if_splits dest: addToNewsLetterList_patches)
  obtain pe w2 where p:
    "(if cStatus orig \<noteq> cStatus c1 then Status_Patch_Contact w1 c1 orig else (None, w1)) = (pe, w2)"
    by (metis surj_pair)
  then have w2: "statusPatches w2 = statusPatches w1 @
      (if cStatus c1 \<noteq> cStatus orig then [PatchContactStatus (key_of (cMeta c1)) (cStatus c1)] else [])"
    by (auto split: if_splits dest: Status_Patch_Contact_patches)
  from assms n p have "obj = Some c1 \<and> w' = w2"
    by (auto simp: contactWriteBack_def split: option.splits if_splits)
  with w1 w2 show ?thesis by simp
qed

lemma Contact_Finalizers_Finalize_patches:
  "Contact_Finalizers_Finalize w c = (res, err, c', w') \<Longrightarrow>
     statusPatches w' = statusPatches w \<and> cStatus c' = cStatus c"
  by (auto simp: Contact_Finalizers_Finalize_def loopsContactFinalizer_Finalize_def
        loopsContactFinalizer_DeleteContact_def Loops_call_eq Let_def
        split: option.splits prod.splits if_splits)

lemma Contact_Reconcile_patches:
  assumes "Contact_Reconcile r now w req = (res, err, obj, w')"
  shows "(\<forall>contact0 w1 contact'. Get_Contact w req = (Inr contact0, w1) \<and> obj = Some contact' \<longrightarrow>
            statusPatches w' = statusPatches w @
              (if cStatus contact' \<noteq> cStatus contact0
               then [PatchContactStatus (key_of (cMeta contact')) (cStatus contact')] else []))
       \<and> (obj = None \<longrightarrow> statusPatches w' = statusPatches w)"
proof (cases "Get_Contact w req")
  case (Pair g w1)
  note gp = Get_Contact_patches[OF Pair]
  show ?thesis
  proof (cases g)
    case (Inl e)
    with assms Pair gp show ?thesis
      by (auto simp: Contact_Reconcile_def split: if_splits)
  next
    case (Inr contact0)
    obtain fres ferr contact w2 where fin: "Contact_Finalizers_Finalize w1 contact0 = (fres, ferr, contact, w2)"
      by (metis prod_cases4)
    note fp = Contact_Finalizers_Finalize_patches[OF fin]
    show ?thesis
    proof (cases ferr)
      case (Some e)
      with assms Pair Inr fin gp fp show ?thesis
        by (auto simp: Contact_Reconcile_def)
    next
      case None
      show ?thesis
      proof (cases "Updated fres")
        case True
        with assms Pair Inr fin None gp fp show ?thesis
          by (auto simp: Contact_Reconcile_def split: option.splits prod.splits if_splits
                dest!: Update_Contact_patches)
      next
        case False
        obtain rr w3 where rr: "reconcileReady now w2 contact = (rr, w3)" by (metis surj_pair)
        note rp = reconcileReady_patches[OF rr]
        show ?thesis
        proof (cases rr)
          case (Inl e)
          with assms Pair Inr fin None False rr gp fp rp show ?thesis
            by (auto simp: Contact_Reconcile_def)
        next
          case (Inr contact1)
          with assms Pair \<open>g = Inr contact0\<close> fin None False rr
          have wb: "contactWriteBack r now w3 contact contact1 = (res, err, obj, w')"
            by (simp add: Contact_Reconcile_def)
          from contactWriteBack_patches[OF wb] gp fp rp Pair \<open>g = Inr contact0\<close>
          show ?thesis by auto
        qed
      qed
    qed
  qed
qed


lemma getReferencedResources_patches:
  "getReferencedResources w cgm = (x, w') \<Longrightarrow> statusPatches w' = statusPatches w"
  by (auto simp: getReferencedResources_def split: prod.splits sum.splits
        dest!: Get_Contact_patches Get_ContactGroup_patches)

lemma addContactToMailingList_patches:
  "addContactToMailingList w c cg = (x, w') \<Longrightarrow> statusPatches w' = statusPatches w"
  by (auto simp: addContactToMailingList_def Loops_call_eq split: sum.splits option.splits)

lemma removeContactFromMailingList_patches:
  "removeContactFromMailingList w c cg = (x, w') \<Longrightarrow> statusPatches w' = statusPatches w"
  by (auto simp: removeContactFromMailingList_def Loops_call_eq split: sum.splits option.splits)

lemma membershipFinalizerRemote_patches:
  "membershipFinalizerRemote w cgm = (x, w') \<Longrightarrow> statusPatches w' = statusPatches w"
  by (auto simp: membershipFinalizerRemote_def split: prod.splits sum.splits option.splits
        dest!: getReferencedResources_patches removeContactFromMailingList_patches)

lemma setMembershipCondition_meta [simp]: "mMeta (setMembershipCondition now cgm cond) = mMeta cgm"
  by (simp add: setMembershipCondition_def)

lemma membership_finalizer_patches:
  assumes "loopsContactGroupMembershipFinalizer_Finalize now w (ObjContactGroupMembership cgm) = (res, err, obj', w')"
  shows "\<exists>cgm'. obj' = ObjContactGroupMembership cgm' \<and> mMeta cgm' = mMeta cgm
           \<and> (err = None \<longrightarrow> cgm' = cgm)
           \<and> statusPatches w' = statusPatches w @
               (if mStatus cgm' \<noteq> mStatus cgm
                then [PatchMembershipStatus (key_of (mMeta cgm')) (mStatus cgm')] else [])"
proof -
  obtain x w1 where rem: "membershipFinalizerRemote w cgm = (x, w1)" by (metis surj_pair)
  note rp = membershipFinalizerRemote_patches[OF rem]
  show ?thesis
  proof (cases x)
    case None
    with assms rem rp show ?thesis
      by (auto simp: loopsContactGroupMembershipFinalizer_Finalize_def)
  next
    case (Some fe)
    obtain finalizerError e where fe: "fe = (finalizerError, e)" by (metis surj_pair)
    let ?cgm1 = "setMembershipCondition now cgm
                      \<lparr>Type = LoopsContactGroupMembershipReadyCondition, Status = ConditionFalse,
                       Reason = LoopsContactGroupMembershipNotFinalizedReason,
                       Message = ''Failed to remove Loops contact from mailing list: '' @ Error e,
                       LastTransitionTime = now, ObservedGeneration = Generation (mMeta cgm)\<rparr>"
    obtain pe w2 where p: "PatchStatusIfChanged w1 ?cgm1 cgm (mStatus cgm) (mStatus ?cgm1) = (pe, w2)"
      by (metis surj_pair)
    note pp = PatchStatusIfChanged_patches[OF p]
    from assms rem Some fe p have "obj' = ObjContactGroupMembership ?cgm1 \<and> w' = w2 \<and> err \<noteq> None"
      by (auto simp: loopsContactGroupMembershipFinalizer_Finalize_def Let_def
            split: option.splits)
    moreover have "mMeta ?cgm1 = mMeta cgm" by simp
    ultimately show ?thesis using pp rp by auto
  qed
qed

lemma Membership_Finalizers_Finalize_patches:
  assumes "Membership_Finalizers_Finalize now w cgm = (res, err, cgm', w')"
  shows "key_of (mMeta cgm') = key_of (mMeta cgm)
         \<and> (err = None \<longrightarrow> mStatus cgm' = mStatus cgm)
         \<and> statusPatches w' = statusPatches w @
               (if mStatus cgm' \<noteq> mStatus cgm
                then [PatchMembershipStatus (key_of (mMeta cgm')) (mStatus cgm')] else [])"
proof -
  obtain fr fe fo fw where fin:
    "loopsContactGroupMembershipFinalizer_Finalize now w (ObjContactGroupMembership cgm) = (fr, fe, fo, fw)"
    by (metis prod_cases4)
  from membership_finalizer_patches[OF fin] obtain c1 where
    c1: "fo = ObjContactGroupMembership c1" "mMeta c1 = mMeta cgm" "fe = None \<longrightarrow> c1 = cgm"
      "statusPatches fw = statusPatches w @
               (if mStatus c1 \<noteq> mStatus cgm
                then [PatchMembershipStatus (key_of (mMeta c1)) (mStatus c1)] else [])"
    by blast
  from assms fin c1 show ?thesis
    by (auto simp: Membership_Finalizers_Finalize_def Let_def asMembership_def key_of_def
          split: if_splits option.splits)
qed

lemma membershipCreation_patches:
  "membershipCreation now w cgm c g = (e, cgm', w') \<Longrightarrow>
     statusPatches w' = statusPatches w \<and> mMeta cgm' = mMeta cgm"
  by (auto simp: membershipCreation_def Let_def split: prod.splits option.splits
        dest!: addContactToMailingList_patches)

lemma reconcileMembershipReady_patches:
  "reconcileMembershipReady now w cgm c g = (e, cgm', w') \<Longrightarrow>
     statusPatches w' = statusPatches w \<and> mMeta cgm' = mMeta cgm"
  by (auto simp: reconcileMembershipReady_def split: option.splits if_splits
        dest!: membershipCreation_patches)

lemma Membership_Reconcile_patches:
  assumes "Membership_Reconcile now w req = (res, err, obj, w')"
  shows "(\<forall>cgm0 w1 cgm'. Get_Membership w req = (Inr cgm0, w1) \<and> obj = Some cgm' \<longrightarrow>
            statusPatches w' = statusPatches w @
              (if mStatus cgm' \<noteq> mStatus cgm0
               then [PatchMembershipStatus (key_of (mMeta cgm')) (mStatus cgm')] else []))
       \<and> (obj = None \<longrightarrow> statusPatches w' = statusPatches w)"
proof (cases "Get_Membership w req")
  case (Pair g w1)
  note gp = Get_Membership_patches[OF Pair]
  show ?thesis
  proof (cases g)
    case (Inl e)
    with assms Pair gp show ?thesis
      by (auto simp: Membership_Reconcile_def split: if_splits)
  next
    case (Inr cgm0)
    obtain fres ferr cgm w2 where fin: "Membership_Finalizers_Finalize now w1 cgm0 = (fres, ferr, cgm, w2)"
      by (metis prod_cases4)
    note fp = Membership_Finalizers_Finalize_patches[OF fin]
    show ?thesis
    proof (cases ferr)
      case (Some e)
      with assms Pair Inr fin gp fp show ?thesis
        by (auto simp: Membership_Reconcile_def)
    next
      case None
      with fp have st: "mStatus cgm = mStatus cgm0" and w2: "statusPatches w2 = statusPatches w1" by auto
      show ?thesis
      proof (cases "Updated fres")
        case True
        obtain ue w3 where u: "Update_Membership w2 cgm = (ue, w3)" by (metis surj_pair)
        note up = Update_Membership_patches[OF u]
        from assms Pair Inr fin None True u have "obj = Some cgm \<and> w' = w3"
          by (auto simp: Membership_Reconcile_def split: option.splits if_splits)
        with Pair Inr st w2 up gp show ?thesis by auto
      next
        case False
        obtain rr w3 where rr: "getReferencedResources w2 cgm = (rr, w3)" by (metis surj_pair)
        note rp = getReferencedResources_patches[OF rr]
        show ?thesis
        proof (cases rr)
          case (Inl e)
          with assms Pair \<open>g = Inr cgm0\<close> fin None False rr have "obj = Some cgm \<and> w' = w3"
            by (auto simp: Membership_Reconcile_def)
          with Pair \<open>g = Inr cgm0\<close> st w2 rp gp show ?thesis by auto
        next
          case (Inr cg)
          obtain contact contactGroup where cg: "cg = (contact, contactGroup)" by (metis surj_pair)
          obtain re cgm1 w4 where mr: "reconcileMembershipReady now w3 cgm contact contactGroup = (re, cgm1, w4)"
            by (metis prod_cases3)
          note mp = reconcileMembershipReady_patches[OF mr]
          obtain pe w5 where p: "PatchStatusIfChanged w4 cgm1 cgm (mStatus cgm) (mStatus cgm1) = (pe, w5)"
            by (metis surj_pair)
          note pp = PatchStatusIfChanged_patches[OF p]
          from assms Pair \<open>g = Inr cgm0\<close> fin None False rr Inr cg mr p
          have "obj = Some cgm1 \<and> w' = w5"
            by (auto simp: Membership_Reconcile_def split: option.splits)
          with Pair \<open>g = Inr cgm0\<close> st w2 rp gp mp pp show ?thesis by auto
        qed
      qed
    qed
  qed
qed

text \<open>
  Claim C9.  In a reconciliation of a Contact, and in one of a ContactGroupMembership, the
  status patches sent to the store are: exactly one, carrying the status the reconciler
  holds when it returns, when that status differs from the status read at the start; and
  none when it is the same, or when the object could not be read.
\<close>

theorem status_patch_iff_status_changed:
  "(Contact_Reconcile r now w req = (res, err, obj, w') \<longrightarrow>
      (\<forall>contact0 w1 contact'. Get_Contact w req = (Inr contact0, w1) \<and> obj = Some contact' \<longrightarrow>
            statusPatches w' = statusPatches w @
              (if cStatus contact' \<noteq> cStatus contact0
               then [PatchContactStatus (key_of (cMeta contact')) (cStatus contact')] else []))
       \<and> (obj = None \<longrightarrow> statusPatches w' = statusPatches w))
   \<and> (Membership_Reconcile now w req = (mres, merr, mobj, mw') \<longrightarrow>
      (\<forall>cgm0 w1 cgm'. Get_Membership w req = (Inr cgm0, w1) \<and> mobj = Some cgm' \<longrightarrow>
            statusPatches mw' = statusPatches w @
              (if mStatus cgm' \<noteq> mStatus cgm0
               then [PatchMembershipStatus (key_of (mMeta cgm')) (mStatus cgm')] else []))
       \<and> (mobj = None \<longrightarrow> statusPatches mw' = statusPatches w))"
  by (intro conjI; rule impI; erule Contact_Reconcile_patches Membership_Reconcile_patches)

text \<open>The property of C9 on the examples: the first reconciliation of the contact and of
  the membership sends one patch each, a second one sends none.\<close>

theorem status_patch_iff_status_changed_witness:
  "statusPatches (snd (snd (snd (Contact_Reconcile example_controller 10 example_world (''default'', ''alice'')))))
     = [PatchContactStatus (''default'', ''alice'') (cStatus converged_contact)]
   \<and> statusPatches (snd (snd (snd (Contact_Reconcile example_controller 10
         (example_world\<lparr>contacts := [converged_contact]\<rparr>) (''default'', ''alice''))))) = []
   \<and> statusPatches (snd (snd (snd (Membership_Reconcile 10
         (example_world\<lparr>memberships := [example_membership]\<rparr>) (''default'', ''news-alice'')))))
     = [PatchMembershipStatus (''default'', ''news-alice'') (mStatus created_membership)]
   \<and> statusPatches (snd (snd (snd (Membership_Reconcile 10
         (example_world\<lparr>memberships := [created_membership]\<rparr>) (''default'', ''news-alice''))))) = []"
proof -
  note c = status_patch_iff_status_changed[THEN conjunct1, rule_format, THEN conjunct1, rule_format]
  note m = status_patch_iff_status_changed[THEN conjunct2, rule_format, THEN conjunct1, rule_format]
  have e0: "statusPatches example_world = []"
    and e1: "statusPatches (example_world\<lparr>contacts := [converged_contact]\<rparr>) = []"
    and e2: "statusPatches (example_world\<lparr>memberships := [example_membership]\<rparr>) = []"
    and e3: "statusPatches (example_world\<lparr>memberships := [created_membership]\<rparr>) = []"
    by (simp_all add: statusPatches_def example_world_def)
  have d1: "cStatus converged_contact \<noteq> cStatus example_contact"
    and d2: "mStatus created_membership \<noteq> mStatus example_membership"
    and k1: "key_of (cMeta converged_contact) = (''default'', ''alice'')"
    and k2: "key_of (mMeta created_membership) = (''default'', ''news-alice'')"
    by (simp_all add: example_defs created_membership_def key_of_def)
  from c[OF Contact_Reconcile_example conjI[OF Get_Contact_example refl]]
    c[OF Contact_Reconcile_converged conjI[OF Get_Contact_converged refl]]
    m[OF Membership_Reconcile_example conjI[OF Get_Membership_example refl]]
    m[OF Membership_Reconcile_created conjI[OF Get_Membership_created refl]]
  show ?thesis
    by (simp only: Contact_Reconcile_example Contact_Reconcile_converged Membership_Reconcile_example
          Membership_Reconcile_created snd_conv e0 e1 e2 e3 d1 d2 k1 k2 if_True if_False
          append_Nil simp_thms)
qed

section \<open>The invariant of the Contact status: claim C6\<close>


lemma Type_updateCondition [simp]: "Type (updateCondition now c new) = Type c"
  by (simp add: updateCondition_def Let_def)

lemma conditionCount_SetStatusCondition:
  "conditionCount t (SetStatusCondition now conds new) =
     (if Type new = t then max 1 (conditionCount t conds) else conditionCount t conds)"
  by (induction conds) (auto simp: conditionCount_def)

lemma status_ok_setContactCondition:
  "status_ok (cStatus c) \<Longrightarrow> status_ok (cStatus (setContactCondition now c cond))"
  by (auto simp: status_ok_def setContactCondition_def conditionCount_SetStatusCondition)

lemma setContactCondition_keeps [simp]:
  "Providers (cStatus (setContactCondition now c cond)) = Providers (cStatus c)"
  "cMeta (setContactCondition now c cond) = cMeta c"
  by (simp_all add: setContactCondition_def)

lemma status_ok_providers:
  "status_ok (cStatus c) \<Longrightarrow> status_ok (cStatus (c\<lparr>cStatus := (cStatus c)\<lparr>Providers := [p]\<rparr>\<rparr>))"
  by (simp add: status_ok_def)

lemma upsertContact_store: "upsertContact w c = (x, w') \<Longrightarrow> contacts w' = contacts w"
  by (auto simp: upsertContact_def Loops_call_eq split: option.splits)

lemma contactCreation_ok:
  "contactCreation now w c = (Inr c', w') \<Longrightarrow> status_ok (cStatus c) \<Longrightarrow> status_ok (cStatus c')"
  by (auto simp: contactCreation_def Let_def split: prod.splits option.splits if_splits
        intro!: status_ok_setContactCondition status_ok_providers)

lemma contactUpdate_ok:
  "contactUpdate now w c = (Inr c', w') \<Longrightarrow> status_ok (cStatus c) \<Longrightarrow> status_ok (cStatus c')"
  by (auto simp: contactUpdate_def Let_def split: prod.splits option.splits if_splits
        intro!: status_ok_setContactCondition)

lemma reconcileReady_ok:
  "reconcileReady now w c = (Inr c', w') \<Longrightarrow> status_ok (cStatus c) \<Longrightarrow> status_ok (cStatus c')"
  by (auto simp: reconcileReady_def split: option.splits if_splits
        dest: contactCreation_ok contactUpdate_ok)

lemma reconcileReady_store: "reconcileReady now w c = (x, w') \<Longrightarrow> contacts w' = contacts w"
  by (auto simp: reconcileReady_def contactCreation_def contactUpdate_def Let_def
        split: option.splits prod.splits if_splits dest!: upsertContact_store)

lemma serverName_store: "serverName m w = (m', w') \<Longrightarrow> contacts w' = contacts w"
  by (auto simp: serverName_def split: list.splits if_splits)

lemma Create_Membership_store: "Create_Membership w m = (x, w') \<Longrightarrow> contacts w' = contacts w"
  by (auto simp: Create_Membership_def takeFault_eq split: option.splits prod.splits if_splits
        dest!: serverName_store)

lemma addToNewsLetterList_ok:
  "addToNewsLetterList r now w c = (e, c', w') \<Longrightarrow>
     contacts w' = contacts w \<and> Providers (cStatus c') = Providers (cStatus c) \<and> cMeta c' = cMeta c
     \<and> (status_ok (cStatus c) \<longrightarrow> status_ok (cStatus c'))"
  by (auto simp: addToNewsLetterList_def Let_def split: option.splits prod.splits if_splits
        dest!: Create_Membership_store intro!: status_ok_setContactCondition)

lemma status_ok_mergeStatus:
  "status_ok orig' \<Longrightarrow> status_ok modified \<Longrightarrow> status_ok stored \<Longrightarrow> status_ok (mergeStatus orig modified stored)"
  by (auto simp: status_ok_def mergeStatus_def)

lemma Status_Patch_Contact_ok:
  "Status_Patch_Contact w c orig = (x, w') \<Longrightarrow> store_ok w \<Longrightarrow> status_ok (cStatus c) \<Longrightarrow> store_ok w'"
  by (auto simp: Status_Patch_Contact_def takeFault_eq store_ok_def list_all_iff
        split: option.splits if_splits intro!: status_ok_mergeStatus)

lemma Update_Contact_ok: "Update_Contact w c = (x, w') \<Longrightarrow> store_ok w \<Longrightarrow> store_ok w'"
  by (auto simp: Update_Contact_def takeFault_eq store_ok_def list_all_iff
        split: option.splits if_splits)

lemma Get_Contact_ok:
  "Get_Contact w k = (Inr c, w') \<Longrightarrow> store_ok w \<Longrightarrow> store_ok w' \<and> status_ok (cStatus c)"
  by (auto simp: Get_Contact_def takeFault_eq store_ok_def list_all_iff find_Some_iff
        split: option.splits)

lemma store_ok_cong: "contacts w' = contacts w \<Longrightarrow> store_ok w' = store_ok w"
  by (simp add: store_ok_def)

lemma Contact_Finalizers_Finalize_ok:
  "Contact_Finalizers_Finalize w c = (res, err, c', w') \<Longrightarrow>
     contacts w' = contacts w \<and> cStatus c' = cStatus c"
  by (auto simp: Contact_Finalizers_Finalize_def loopsContactFinalizer_Finalize_def
        loopsContactFinalizer_DeleteContact_def Loops_call_eq Let_def
        split: option.splits prod.splits if_splits)

lemma contactWriteBack_ok:
  assumes "contactWriteBack r now w orig c = (res, err, obj, w')"
    and "store_ok w" and "status_ok (cStatus c)"
  shows "\<exists>c'. obj = Some c' \<and> status_ok (cStatus c') \<and> store_ok w'
           \<and> Providers (cStatus c') = Providers (cStatus c)"
proof -
  obtain e c1 w1 where n:
    "(if isNewsletterContact c then addToNewsLetterList r now w c else (False, c, w)) = (e, c1, w1)"
    by (metis prod_cases3)
  have n1: "contacts w1 = contacts w \<and> Providers (cStatus c1) = Providers (cStatus c)
      \<and> status_ok (cStatus c1)"
  proof (cases "isNewsletterContact c")
    case True
    with n have "addToNewsLetterList r now w c = (e, c1, w1)" by simp
    from addToNewsLetterList_ok[OF this] assms(3) show ?thesis by simp
  next
    case False
    with n assms(3) show ?thesis by simp
  qed
  have s1: "store_ok w1" using store_ok_cong[of w1 w] n1 assms(2) by simp
  obtain pe w2 where p:
    "(if cStatus orig \<noteq> cStatus c1 then Status_Patch_Contact w1 c1 orig else (None, w1)) = (pe, w2)"
    by (metis surj_pair)
  have s2: "store_ok w2"
  proof (cases "cStatus orig \<noteq> cStatus c1")
    case True
    with p have "Status_Patch_Contact w1 c1 orig = (pe, w2)" by simp
    from Status_Patch_Contact_ok[OF this s1] n1 show ?thesis by simp
  next
    case False
    with p s1 show ?thesis by simp
  qed
  from assms(1) n p have "obj = Some c1 \<and> w' = w2"
    by (auto simp: contactWriteBack_def split: option.splits if_splits)
  with n1 s2 show ?thesis by simp
qed


lemma Contact_Finalizers_Finalize_idle:
  "finalizersIdle c \<Longrightarrow>
     Contact_Finalizers_Finalize w c = (\<lparr>Updated = False, StatusUpdated = False\<rparr>, None, c, w)"
  by (auto simp: finalizersIdle_def Contact_Finalizers_Finalize_def Let_def)

lemma Get_Contact_replies: "Get_Contact w k = (x, w') \<Longrightarrow> nextLoopsReply w' = nextLoopsReply w"
  by (auto simp: Get_Contact_def takeFault_eq nextLoopsReply_def split: option.splits)

lemma contactCreation_success:
  "nextLoopsReply w = None \<Longrightarrow>
     \<exists>c' w'. contactCreation now w c = (Inr c', w')
        \<and> Providers (cStatus c') = [\<lparr>ProviderName = ''Loops'', ID = UID (cMeta c)\<rparr>]"
  by (simp add: contactCreation_def upsertContact_def Loops_call_eq Let_def)

lemma reconcileReady_creation:
  "creationCase c \<Longrightarrow> reconcileReady now w c = contactCreation now w c"
  by (auto simp: creationCase_def reconcileReady_def split: option.splits)

lemma Contact_Reconcile_ok:
  assumes "Contact_Reconcile r now w req = (res, err, Some contact', w')" and "store_ok w"
  shows "status_ok (cStatus contact') \<and> store_ok w'"
proof (cases "Get_Contact w req")
  case (Pair g w1)
  show ?thesis
  proof (cases g)
    case (Inl e)
    with assms Pair show ?thesis
      by (auto simp: Contact_Reconcile_def split: if_splits)
  next
    case (Inr contact0)
    from Get_Contact_ok[OF Pair[unfolded Inr] assms(2)]
    have g1: "store_ok w1" "status_ok (cStatus contact0)" by simp_all
    obtain fres ferr contact w2 where fin: "Contact_Finalizers_Finalize w1 contact0 = (fres, ferr, contact, w2)"
      by (metis prod_cases4)
    from Contact_Finalizers_Finalize_ok[OF fin] g1
    have f1: "store_ok w2" "status_ok (cStatus contact)"
      using store_ok_cong[of w2 w1] by simp_all
    show ?thesis
    proof (cases ferr)
      case (Some e)
      with assms Pair Inr fin f1 show ?thesis
        by (auto simp: Contact_Reconcile_def)
    next
      case None
      show ?thesis
      proof (cases "Updated fres")
        case True
        obtain ue w3 where u: "Update_Contact w2 contact = (ue, w3)" by (metis surj_pair)
        from assms(1) Pair Inr fin None True u have "contact' = contact \<and> w' = w3"
          by (auto simp: Contact_Reconcile_def split: option.splits if_splits)
        with Update_Contact_ok[OF u f1(1)] f1(2) show ?thesis by simp
      next
        case False
        obtain rr w3 where rr: "reconcileReady now w2 contact = (rr, w3)" by (metis surj_pair)
        have s3: "store_ok w3"
          using reconcileReady_store[OF rr] store_ok_cong[of w3 w2] f1(1) by simp
        show ?thesis
        proof (cases rr)
          case (Inl e)
          with assms(1) Pair \<open>g = Inr contact0\<close> fin None False rr
          have "contact' = contact \<and> w' = w3"
            by (auto simp: Contact_Reconcile_def)
          with s3 f1(2) show ?thesis by simp
        next
          case (Inr contact1)
          with assms(1) Pair \<open>g = Inr contact0\<close> fin None False rr
          have wb: "contactWriteBack r now w3 contact contact1 = (res, err, Some contact', w')"
            by (simp add: Contact_Reconcile_def)
          have "status_ok (cStatus contact1)"
            using reconcileReady_ok[OF rr[unfolded Inr] f1(2)] .
          from contactWriteBack_ok[OF wb s3 this] show ?thesis by simp
        qed
      qed
    qed
  qed
qed

lemma Contact_Reconcile_created_providers:
  assumes "Contact_Reconcile r now w req = (res, err, Some contact', w')"
    and "Get_Contact w req = (Inr contact, w1)"
    and "finalizersIdle contact" and "creationCase contact" and "nextLoopsReply w = None"
  shows "Providers (cStatus contact') = [\<lparr>ProviderName = ''Loops'', ID = UID (cMeta contact)\<rparr>]"
proof -
  have "nextLoopsReply w1 = None" using Get_Contact_replies[OF assms(2)] assms(5) by simp
  from contactCreation_success[OF this, of now contact] obtain c1 w3 where
    cc: "contactCreation now w1 contact = (Inr c1, w3)"
    and p1: "Providers (cStatus c1) = [\<lparr>ProviderName = ''Loops'', ID = UID (cMeta contact)\<rparr>]"
    by blast
  have wb: "contactWriteBack r now w3 contact c1 = (res, err, Some contact', w')"
    using assms(1)
    by (simp add: Contact_Reconcile_def assms(2) Contact_Finalizers_Finalize_idle[OF assms(3)]
          reconcileReady_creation[OF assms(4)] cc)
  obtain e c2 w4 where n:
    "(if isNewsletterContact c1 then addToNewsLetterList r now w3 c1 else (False, c1, w3)) = (e, c2, w4)"
    by (metis prod_cases3)
  have p2: "Providers (cStatus c2) = Providers (cStatus c1)"
  proof (cases "isNewsletterContact c1")
    case True
    with n have "addToNewsLetterList r now w3 c1 = (e, c2, w4)" by simp
    from addToNewsLetterList_ok[OF this] show ?thesis by simp
  next
    case False
    with n show ?thesis by simp
  qed
  from wb n have "contact' = c2"
    by (auto simp: contactWriteBack_def split: option.splits prod.splits if_splits)
  with p1 p2 show ?thesis by simp
qed

text \<open>
  Claim C6.  Let the status of every contact in the store hold at most one Ready condition
  and at most one entry per provider name.  Then so does the status the reconciler holds
  when a reconciliation of a Contact returns, whichever path it took (creation or update,
  success or bad-request, newsletter membership or not), and so does the status of every
  contact in the store afterwards.  When the contact took the creation case and the
  provider accepted the upsert, the providers of the status are exactly the one entry
  with the name Loops and the contact's UID.
\<close>

theorem contact_status_invariant:
  assumes "Contact_Reconcile r now w req = (res, err, Some contact', w')" and "store_ok w"
  shows "status_ok (cStatus contact') \<and> store_ok w'
       \<and> (\<forall>contact w1. Get_Contact w req = (Inr contact, w1) \<and> finalizersIdle contact
              \<and> creationCase contact \<and> nextLoopsReply w = None
            \<longrightarrow> Providers (cStatus contact') = [\<lparr>ProviderName = ''Loops'', ID = UID (cMeta contact)\<rparr>])"
  using Contact_Reconcile_ok[OF assms] Contact_Reconcile_created_providers[OF assms(1)]
  by simp


text \<open>The property of C6 on the first reconciliation of the example contact.\<close>

theorem contact_status_invariant_witness:
  "status_ok (cStatus converged_contact)
   \<and> store_ok (example_world\<lparr>contacts := [converged_contact],
        requests := [PatchContactStatus (''default'', ''alice'') (cStatus converged_contact)],
        loopsCalls := [UpsertContact \<lparr>ReqEmail = ''a@example.com'', ReqUserID = ''u1'',
                        ReqFirstName = ''Alice'', ReqLastName = ''Doe'',
                        ReqSource = ''email-provider-loops-k8s-controller'', ReqSubscribed = Some True\<rparr>]\<rparr>)
   \<and> Providers (cStatus converged_contact) = [\<lparr>ProviderName = ''Loops'', ID = UID (cMeta example_contact)\<rparr>]"
proof -
  have h: "store_ok example_world"
    by (simp add: store_ok_def status_ok_def conditionCount_def example_defs)
  have i: "finalizersIdle example_contact" and c: "creationCase example_contact"
    and n: "nextLoopsReply example_world = None"
    by (simp_all add: finalizersIdle_def creationCase_def nextLoopsReply_def example_defs
          loopsContactFinalizerKey_def FindStatusCondition_def)
  note t = contact_status_invariant[OF Contact_Reconcile_example h]
  from t[THEN conjunct1] t[THEN conjunct2, THEN conjunct1]
    t[THEN conjunct2, THEN conjunct2, rule_format, OF conjI[OF Get_Contact_example conjI[OF i conjI[OF c n]]]]
  show ?thesis by (intro conjI)
qed


end
